theory Spec2Isabelle
  imports Complex_Main "HOL-Library.Sublist"
begin

section \<open>Data model (src/types.ts)\<close>

datatype RiskLevel = Low | Medium | High

datatype ScanMode = text_mode | link_mode | image_mode | payment_mode | qr_mode

type_synonym Country = string

section \<open>JavaScript values used by the engine\<close>

subsection \<open>Numbers\<close>

text \<open>
  A JavaScript number. \<open>Fin q\<close> is the finite double whose exact value is \<open>q\<close>; the sign of
  zero is not kept (it could only flip the sign of an infinite quotient, which no comparison
  in the engine tells apart). Division and subtraction round their exact result to the
  nearest double, ties to even, as IEEE 754 binary64 does.
\<close>

datatype jsnum = Fin rat | Infinity | NegInfinity | NaN

text \<open>\<open>floor_log2 x\<close> is the integer \<open>e\<close> with \<open>2^e \<le> x < 2^(e+1)\<close>, for \<open>x > 0\<close>.\<close>

function floor_log2_up :: "rat \<Rightarrow> int" where
  "floor_log2_up x = (if 2 \<le> x then floor_log2_up (x / 2) + 1 else 0)"
  by auto
termination
proof (relation "measure (\<lambda>x. nat \<lfloor>x\<rfloor>)")
  show "wf (measure (\<lambda>x::rat. nat \<lfloor>x\<rfloor>))" by simp
next
  fix x :: rat
  assume "2 \<le> x"
  then have "x / 2 \<le> x - 1" by simp
  then have "\<lfloor>x / 2\<rfloor> \<le> \<lfloor>x - 1\<rfloor>" by (rule floor_mono)
  moreover from \<open>2 \<le> x\<close> have "2 \<le> \<lfloor>x\<rfloor>" by (simp add: le_floor_iff)
  ultimately show "(x / 2, x) \<in> measure (\<lambda>x. nat \<lfloor>x\<rfloor>)" by simp
qed

function floor_log2_down :: "rat \<Rightarrow> int" where
  "floor_log2_down x = (if 0 < x \<and> x < 1 then floor_log2_down (2 * x) - 1 else 0)"
  by auto
termination
proof (relation "measure (\<lambda>x. nat \<lfloor>1 / x\<rfloor>)")
  show "wf (measure (\<lambda>x::rat. nat \<lfloor>1 / x\<rfloor>))" by simp
next
  fix x :: rat
  assume a: "0 < x \<and> x < 1"
  define y where "y = 1 / x"
  from a have y: "1 < y" by (simp add: y_def)
  then have one: "1 \<le> \<lfloor>y\<rfloor>" by (simp add: le_floor_iff)
  have "y / 2 < of_int \<lfloor>y\<rfloor>"
  proof (cases "2 \<le> y")
    case True
    then have "y / 2 \<le> y - 1" by simp
    also have "\<dots> < of_int \<lfloor>y\<rfloor>" by linarith
    finally show ?thesis .
  next
    case False
    then have "y / 2 < 1" by simp
    also from one have "1 \<le> (of_int \<lfloor>y\<rfloor> :: rat)" by simp
    finally show ?thesis .
  qed
  then have "\<lfloor>y / 2\<rfloor> < \<lfloor>y\<rfloor>" by (simp add: floor_less_iff)
  moreover from a have "1 / (2 * x) = y / 2" by (simp add: y_def)
  ultimately have "\<lfloor>1 / (2 * x)\<rfloor> < \<lfloor>1 / x\<rfloor>" by (simp only: y_def)
  with one show "(2 * x, x) \<in> measure (\<lambda>x. nat \<lfloor>1 / x\<rfloor>)"
    by (simp add: y_def)
qed

declare floor_log2_up.simps [simp del] floor_log2_down.simps [simp del]

definition floor_log2 :: "rat \<Rightarrow> int" where
  "floor_log2 x = (if 1 \<le> x then floor_log2_up x else floor_log2_down x)"

definition pow2 :: "int \<Rightarrow> rat" where
  "pow2 k = (if 0 \<le> k then 2 ^ nat k else 1 / 2 ^ nat (- k))"

definition round_half_even :: "rat \<Rightarrow> int" where
  "round_half_even x =
     (let f = \<lfloor>x\<rfloor>; d = x - of_int f
      in if d < 1 / 2 then f else if 1 / 2 < d then f + 1 else if even f then f else f + 1)"

text \<open>
  The double nearest to the real number \<open>q\<close>. The spacing of the doubles around \<open>q\<close> is
  \<open>2^(e - 52)\<close> for the binary exponent \<open>e\<close> of \<open>q\<close>, never below \<open>2^(-1074)\<close> (subnormal
  numbers); a result of \<open>2^1024\<close> or more is infinite.
\<close>

definition fl :: "rat \<Rightarrow> jsnum" where
  "fl q =
     (if q = 0 then Fin 0
      else
        (let e = max (floor_log2 \<bar>q\<bar>) (- 1022);
             ulp = pow2 (e - 52);
             r = of_int (round_half_even (\<bar>q\<bar> / ulp)) * ulp
         in if pow2 1024 \<le> r then (if q < 0 then NegInfinity else Infinity)
            else Fin (if q < 0 then - r else r)))"

fun jsdiv :: "jsnum \<Rightarrow> jsnum \<Rightarrow> jsnum" where
  "jsdiv NaN _ = NaN"
| "jsdiv _ NaN = NaN"
| "jsdiv (Fin a) (Fin b) =
     (if b \<noteq> 0 then fl (a / b)
      else if a = 0 then NaN
      else if 0 < a then Infinity else NegInfinity)"
| "jsdiv (Fin a) Infinity = Fin 0"
| "jsdiv (Fin a) NegInfinity = Fin 0"
| "jsdiv Infinity (Fin b) = (if 0 \<le> b then Infinity else NegInfinity)"
| "jsdiv NegInfinity (Fin b) = (if 0 \<le> b then NegInfinity else Infinity)"
| "jsdiv Infinity Infinity = NaN"
| "jsdiv Infinity NegInfinity = NaN"
| "jsdiv NegInfinity Infinity = NaN"
| "jsdiv NegInfinity NegInfinity = NaN"

fun jssub :: "jsnum \<Rightarrow> jsnum \<Rightarrow> jsnum" where
  "jssub NaN _ = NaN"
| "jssub _ NaN = NaN"
| "jssub (Fin a) (Fin b) = fl (a - b)"
| "jssub (Fin a) Infinity = NegInfinity"
| "jssub (Fin a) NegInfinity = Infinity"
| "jssub Infinity (Fin b) = Infinity"
| "jssub NegInfinity (Fin b) = NegInfinity"
| "jssub Infinity Infinity = NaN"
| "jssub Infinity NegInfinity = Infinity"
| "jssub NegInfinity Infinity = NegInfinity"
| "jssub NegInfinity NegInfinity = NaN"

fun jsabs :: "jsnum \<Rightarrow> jsnum" where
  "jsabs (Fin a) = Fin \<bar>a\<bar>"
| "jsabs Infinity = Infinity"
| "jsabs NegInfinity = Infinity"
| "jsabs NaN = NaN"

text \<open>\<open>a < b\<close> on numbers; every comparison with \<open>NaN\<close> is false.\<close>

fun jslt :: "jsnum \<Rightarrow> jsnum \<Rightarrow> bool" where
  "jslt NaN _ = False"
| "jslt _ NaN = False"
| "jslt (Fin a) (Fin b) = (a < b)"
| "jslt (Fin a) Infinity = True"
| "jslt (Fin a) NegInfinity = False"
| "jslt Infinity _ = False"
| "jslt NegInfinity (Fin b) = True"
| "jslt NegInfinity Infinity = True"
| "jslt NegInfinity NegInfinity = False"

text \<open>\<open>Math.max\<close> and \<open>Math.min\<close> of two numbers: \<open>NaN\<close> as soon as one of them is.\<close>

definition jsmax :: "jsnum \<Rightarrow> jsnum \<Rightarrow> jsnum" where
  "jsmax a b = (if a = NaN \<or> b = NaN then NaN else if jslt a b then b else a)"

definition jsmin :: "jsnum \<Rightarrow> jsnum \<Rightarrow> jsnum" where
  "jsmin a b = (if a = NaN \<or> b = NaN then NaN else if jslt b a then b else a)"

subsection \<open>Values\<close>

text \<open>
  A JavaScript value as \<open>JSON.parse\<close> can produce it, and \<open>undefined\<close>. A string is a list of
  characters, each standing for one code unit below 256. An object is the list of its own
  properties; the first entry for a key is the property.
\<close>

datatype jsval =
  Undefined | Null | Bool bool | Num jsnum | Str string | Arr "jsval list"
  | Obj "(string \<times> jsval) list"

datatype error = TypeError | GatewayError

text \<open>
  The two conversions of the language that depend on the decimal notation of doubles are
  taken from the host: \<open>NumberToString\<close> is Number::toString (radix 10) and \<open>StringToNumber\<close>
  is the numeric value of a string (\<open>NaN\<close> when the string is no numeric literal).
\<close>

record host =
  NumberToString :: "jsnum \<Rightarrow> string"
  StringToNumber :: "string \<Rightarrow> jsnum"

text \<open>The test of a value in a condition, and \<open>v || d\<close>.\<close>

fun truthy :: "jsval \<Rightarrow> bool" where
  "truthy Undefined = False"
| "truthy Null = False"
| "truthy (Bool b) = b"
| "truthy (Num n) = (n \<noteq> Fin 0 \<and> n \<noteq> NaN)"
| "truthy (Str s) = (s \<noteq> [])"
| "truthy (Arr xs) = True"
| "truthy (Obj kv) = True"

definition or_else :: "jsval \<Rightarrow> jsval \<Rightarrow> jsval" where
  "or_else v d = (if truthy v then v else d)"

text \<open>
  Reading a property whose name no prototype defines (every name the engine reads is one):
  a TypeError on \<open>null\<close> and \<open>undefined\<close>, the own property of an object, \<open>undefined\<close>
  otherwise. \<open>field\<close> is the read once the value is known not to be \<open>null\<close>.
\<close>

definition field :: "jsval \<Rightarrow> string \<Rightarrow> jsval" where
  "field v k =
     (case v of
        Obj kv \<Rightarrow> (case map_of kv k of None \<Rightarrow> Undefined | Some x \<Rightarrow> x)
      | _ \<Rightarrow> Undefined)"

definition get :: "jsval \<Rightarrow> string \<Rightarrow> error + jsval" where
  "get v k = (if v = Null \<or> v = Undefined then Inl TypeError else Inr (field v k))"

text \<open>
  \<open>String(v)\<close>. An array is joined with commas, \<open>null\<close> and \<open>undefined\<close> entries giving the
  empty string. A plain object is \<open>[object Object]\<close>, unless it has an own property
  \<open>toString\<close>: no value of a parsed reply is callable, so the conversion finds no method
  that returns a primitive and raises a TypeError.
\<close>

fun join_with_commas :: "string list \<Rightarrow> string" where
  "join_with_commas [] = []"
| "join_with_commas [s] = s"
| "join_with_commas (s # t # ss) = s @ '','' @ join_with_commas (t # ss)"

fun collect :: "(error + 'a) list \<Rightarrow> error + 'a list" where
  "collect [] = Inr []"
| "collect (Inl e # rs) = Inl e"
| "collect (Inr x # rs) = (case collect rs of Inl e \<Rightarrow> Inl e | Inr xs \<Rightarrow> Inr (x # xs))"

fun ToString :: "host \<Rightarrow> jsval \<Rightarrow> error + string" where
  "ToString h Undefined = Inr ''undefined''"
| "ToString h Null = Inr ''null''"
| "ToString h (Bool b) = Inr (if b then ''true'' else ''false'')"
| "ToString h (Num n) = Inr (NumberToString h n)"
| "ToString h (Str s) = Inr s"
| "ToString h (Arr xs) =
     (case collect (map (\<lambda>x. if x = Undefined \<or> x = Null then Inr [] else ToString h x) xs) of
        Inl e \<Rightarrow> Inl e
      | Inr ss \<Rightarrow> Inr (join_with_commas ss))"
| "ToString h (Obj kv) =
     (if map_of kv ''toString'' \<noteq> None then Inl TypeError else Inr ''[object Object]'')"

text \<open>\<open>Number(v)\<close>, the conversion \<open>Math.max\<close>, \<open>Math.min\<close> and \<open>>\<close> apply to an operand.\<close>

fun ToNumber :: "host \<Rightarrow> jsval \<Rightarrow> error + jsnum" where
  "ToNumber h Undefined = Inr NaN"
| "ToNumber h Null = Inr (Fin 0)"
| "ToNumber h (Bool b) = Inr (Fin (if b then 1 else 0))"
| "ToNumber h (Num n) = Inr n"
| "ToNumber h (Str s) = Inr (StringToNumber h s)"
| "ToNumber h (Arr xs) =
     (case ToString h (Arr xs) of Inl e \<Rightarrow> Inl e | Inr s \<Rightarrow> Inr (StringToNumber h s))"
| "ToNumber h (Obj kv) =
     (if map_of kv ''toString'' \<noteq> None then Inl TypeError else Inr NaN)"

text \<open>\<open>v > c\<close> for a number \<open>c\<close>, \<open>Math.max(a, b)\<close> and \<open>Math.min(a, b)\<close>.\<close>

definition js_gt :: "host \<Rightarrow> jsval \<Rightarrow> rat \<Rightarrow> error + bool" where
  "js_gt h v c = (case ToNumber h v of Inl e \<Rightarrow> Inl e | Inr n \<Rightarrow> Inr (jslt (Fin c) n))"

definition Math_max :: "host \<Rightarrow> jsval \<Rightarrow> jsval \<Rightarrow> error + jsnum" where
  "Math_max h a b =
     (case ToNumber h a of
        Inl e \<Rightarrow> Inl e
      | Inr x \<Rightarrow> (case ToNumber h b of Inl e \<Rightarrow> Inl e | Inr y \<Rightarrow> Inr (jsmax x y)))"

definition Math_min :: "host \<Rightarrow> jsval \<Rightarrow> jsval \<Rightarrow> error + jsnum" where
  "Math_min h a b =
     (case ToNumber h a of
        Inl e \<Rightarrow> Inl e
      | Inr x \<Rightarrow> (case ToNumber h b of Inl e \<Rightarrow> Inl e | Inr y \<Rightarrow> Inr (jsmin x y)))"

text \<open>
  The spread \<open>...v\<close> in an argument list: the entries of an array, the characters of a
  string, a TypeError for anything else (not iterable).
\<close>

fun spread :: "jsval \<Rightarrow> error + jsval list" where
  "spread (Arr xs) = Inr xs"
| "spread (Str s) = Inr (map (\<lambda>c. Str [c]) s)"
| "spread _ = Inl TypeError"

text \<open>
  \<open>[...new Set(xs)]\<close>: a Set keeps its members in insertion order, and adding a value that
  is already a member changes nothing. Membership is SameValueZero: primitives are compared
  by value, while every array or object of a parsed reply is an object of its own and is
  the same as no other entry.
\<close>

fun primitive :: "jsval \<Rightarrow> bool" where
  "primitive (Arr xs) = False"
| "primitive (Obj kv) = False"
| "primitive _ = True"

definition Set_add :: "jsval list \<Rightarrow> jsval \<Rightarrow> jsval list" where
  "Set_add members x = (if primitive x \<and> x \<in> set members then members else members @ [x])"

definition new_Set :: "jsval list \<Rightarrow> jsval list" where
  "new_Set xs = foldl Set_add [] xs"

subsection \<open>Number.prototype.toFixed\<close>

definition digit_char :: "nat \<Rightarrow> char" where
  "digit_char d = ''0123456789'' ! (d mod 10)"

fun decimal :: "nat \<Rightarrow> string" where
  "decimal n = (if n < 10 then [digit_char n] else decimal (n div 10) @ [digit_char n])"

declare decimal.simps [simp del]

text \<open>
  \<open>x.toFixed(f)\<close> (ECMAScript, Number.prototype.toFixed). A number that is not finite is
  rendered by name. A finite one below \<open>10^21\<close> in magnitude is rendered from the integer
  \<open>n\<close> for which \<open>n / 10^f\<close> is closest to \<open>\<bar>x\<bar>\<close>, the larger one on a tie, left-padded
  with zeros to \<open>f + 1\<close> digits, with the point before the last \<open>f\<close> digits. For a larger
  magnitude the language hands over to Number::toString.
\<close>

definition fixed_digits :: "nat \<Rightarrow> nat \<Rightarrow> string" where
  "fixed_digits f n =
     (let m = decimal n;
          m' = replicate (f + 1 - length m) (CHR ''0'') @ m;
          k = length m'
      in if f = 0 then m' else take (k - f) m' @ ''.'' @ drop (k - f) m')"

definition toFixed :: "host \<Rightarrow> nat \<Rightarrow> jsnum \<Rightarrow> string" where
  "toFixed h f x =
     (case x of
        NaN \<Rightarrow> ''NaN''
      | Infinity \<Rightarrow> ''Infinity''
      | NegInfinity \<Rightarrow> ''-Infinity''
      | Fin q \<Rightarrow>
          (if q < 0 then ''-'' else []) @
          (if 10 ^ 21 \<le> \<bar>q\<bar> then NumberToString h (Fin \<bar>q\<bar>)
           else fixed_digits f (nat \<lfloor>\<bar>q\<bar> * 10 ^ f + 1 / 2\<rfloor>)))"

subsection \<open>Strings and the editing-tool pattern\<close>

definition toLower :: "char \<Rightarrow> char" where
  "toLower c =
     (case map_of (zip ''ABCDEFGHIJKLMNOPQRSTUVWXYZ'' ''abcdefghijklmnopqrstuvwxyz'') c of
        Some l \<Rightarrow> l
      | None \<Rightarrow> c)"

fun starts_with :: "string \<Rightarrow> string \<Rightarrow> bool" where
  "starts_with [] s = True"
| "starts_with (p # ps) [] = False"
| "starts_with (p # ps) (c # cs) = (p = c \<and> starts_with ps cs)"

fun occurs_in :: "string \<Rightarrow> string \<Rightarrow> bool" where
  "occurs_in p [] = starts_with p []"
| "occurs_in p (c # cs) = (starts_with p (c # cs) \<or> occurs_in p cs)"

text \<open>
  \<open>/photoshop|canva|picsart|snapseed|editor|paint|express/i.test(s)\<close>: some alternative
  occurs somewhere in \<open>s\<close>, letters compared without regard to case. Without the \<open>u\<close> flag
  only the ASCII letters \<open>A\<close>-\<open>Z\<close> fold onto \<open>a\<close>-\<open>z\<close>.
\<close>

definition manipulationTools :: "string list" where
  "manipulationTools =
     [''photoshop'', ''canva'', ''picsart'', ''snapseed'', ''editor'', ''paint'', ''express'']"

definition manipulationTools_test :: "string \<Rightarrow> bool" where
  "manipulationTools_test s = list_ex (\<lambda>p. occurs_in p (map toLower s)) manipulationTools"

text \<open>
  \<open>s.trim()\<close> is the empty string: every character of \<open>s\<close> is white space. Of the white
  space of the language, the characters below 256 are the tab, the line feed, the vertical
  tab, the form feed, the carriage return, the space and the no-break space.
\<close>

definition js_whitespace :: "char \<Rightarrow> bool" where
  "js_whitespace c =
     (c \<in> set [CHR 0x09, CHR 0x0A, CHR 0x0B, CHR 0x0C, CHR 0x0D, CHR 0x20, CHR 0xA0])"

definition trim_is_empty :: "string \<Rightarrow> bool" where
  "trim_is_empty s = list_all js_whitespace s"

text \<open>The test of an optional string argument or metadata field in a condition.\<close>

definition truthy_string :: "string option \<Rightarrow> bool" where
  "truthy_string v = (case v of None \<Rightarrow> False | Some s \<Rightarrow> s \<noteq> [])"

section \<open>The result of a scan\<close>

text \<open>
  A \<open>ScanResult\<close> object as it exists at run time: \<open>riskLevel\<close> is always one of the three
  literals, every other field holds whatever value the code stored, \<open>Undefined\<close> when the
  object literal that built the result left the field out.
\<close>

record ScanResult =
  riskLevel :: RiskLevel
  score :: jsval
  explanation :: jsval
  reasons :: jsval
  advice :: jsval
  layoutCheck :: jsval
  anomalies :: jsval

section \<open>Caller-supplied inputs of the forensic scan\<close>

text \<open>
  The metadata bag. No field is required: a string or number field that is absent is
  \<open>None\<close>, a flag that is absent reads as false. The source's \<open>make\<close> and \<open>model\<close> are
  \<open>exif_make\<close> and \<open>exif_model\<close> here (\<open>make\<close> is the name of a record's constructor).
\<close>

record metadata =
  software :: "string option"
  isAlteredTimestamp :: bool
  hasExif :: bool
  isScreenshot :: bool
  exif_make :: "string option"
  exif_model :: "string option"
  gpsLatitude :: "jsnum option"
  gpsLongitude :: "jsnum option"

record imageSize =
  width :: jsnum
  height :: jsnum

section \<open>Template registry (src/engine.ts, PLATFORM_TEMPLATES)\<close>

record PlatformTemplate =
  primaryColor :: string
  aspectRatios :: "jsnum list"
  fontFamily :: string
  branding :: string
  "structure" :: string

definition PLATFORM_TEMPLATES :: "(string \<times> PlatformTemplate) list" where
  "PLATFORM_TEMPLATES =
     [(''Google Pay'',
        \<lparr>primaryColor = ''#4285F4'',
         aspectRatios = [jsdiv (Fin (39 / 2)) (Fin 9), jsdiv (Fin 20) (Fin 9),
                         jsdiv (Fin 16) (Fin 9)],
         fontFamily = ''Product Sans / Google Sans'',
         branding = ''Google Logo top center/left'',
         structure = ''Clean material design, pill buttons''\<rparr>),
      (''PhonePe'',
        \<lparr>primaryColor = ''#5f259f'',
         aspectRatios = [jsdiv (Fin (39 / 2)) (Fin 9), jsdiv (Fin 20) (Fin 9)],
         fontFamily = ''Roboto / Custom Sans'',
         branding = ''Purple header gradient'',
         structure = ''Transaction ID at bottom, large checkmark''\<rparr>),
      (''Paytm'',
        \<lparr>primaryColor = ''#00baf2'',
         aspectRatios = [jsdiv (Fin (39 / 2)) (Fin 9), jsdiv (Fin 20) (Fin 9),
                         jsdiv (Fin 18) (Fin 9)],
         fontFamily = ''Paytm Sans / Inter'',
         branding = ''Light blue accents'',
         structure = ''Payment Success badge top, order details below''\<rparr>),
      (''PayPal'',
        \<lparr>primaryColor = ''#003087'',
         aspectRatios = [jsdiv (Fin 16) (Fin 9), jsdiv (Fin (39 / 2)) (Fin 9)],
         fontFamily = ''PayPal Sans / Futura'',
         branding = ''Double P logo top center'',
         structure = ''Minimalist, center-aligned transaction amount''\<rparr>)]"

text \<open>
  \<open>PLATFORM_TEMPLATES\<close> is an object literal, so \<open>PLATFORM_TEMPLATES[platform]\<close> also finds
  the properties every object inherits from \<open>Object.prototype\<close>. Such a value is truthy
  (a function, or the prototype object for \<open>__proto__\<close>) and has no \<open>aspectRatios\<close>.
\<close>

definition Object_prototype_keys :: "string list" where
  "Object_prototype_keys =
     [''constructor'', ''hasOwnProperty'', ''isPrototypeOf'', ''propertyIsEnumerable'',
      ''toLocaleString'', ''toString'', ''valueOf'', ''__proto__'',
      ''__defineGetter__'', ''__defineSetter__'', ''__lookupGetter__'', ''__lookupSetter__'']"

datatype registry_value = Template PlatformTemplate | Inherited | NoEntry

definition PLATFORM_TEMPLATES_get :: "string \<Rightarrow> registry_value" where
  "PLATFORM_TEMPLATES_get platform =
     (case map_of PLATFORM_TEMPLATES platform of
        Some t \<Rightarrow> Template t
      | None \<Rightarrow> (if platform \<in> set Object_prototype_keys then Inherited else NoEntry))"

section \<open>The external analysis gateway\<close>

text \<open>
  One run of the statements inside a \<open>try\<close> block up to and including
  \<open>JSON.parse(response.text || '{}')\<close>: either one of them throws or rejects (the client, the
  request, the parse), or a value has been parsed. The value is whatever JSON the model
  sent: the response schema is a request to the model, and nothing in the engine checks
  the reply against it.
\<close>

datatype gateway = Throws | Responds jsval

text \<open>\<open>v > high ? 'High' : (v > medium ? 'Medium' : 'Low')\<close>.\<close>

definition riskTernary :: "host \<Rightarrow> jsval \<Rightarrow> rat \<Rightarrow> rat \<Rightarrow> error + RiskLevel" where
  "riskTernary h v high medium =
     (case js_gt h v high of
        Inl e \<Rightarrow> Inl e
      | Inr True \<Rightarrow> Inr High
      | Inr False \<Rightarrow>
          (case js_gt h v medium of
             Inl e \<Rightarrow> Inl e
           | Inr b \<Rightarrow> Inr (if b then Medium else Low)))"

section \<open>analyzeText\<close>

text \<open>The \<open>try\<close> block: \<open>Inl\<close> when control reaches the \<open>catch\<close>.\<close>

definition analyzeText_try :: "host \<Rightarrow> gateway \<Rightarrow> error + ScanResult" where
  "analyzeText_try h gw =
     (case gw of
        Throws \<Rightarrow> Inl GatewayError
      | Responds aiResult \<Rightarrow>
          (case get aiResult ''score'' of
             Inl e \<Rightarrow> Inl e
           | Inr s \<Rightarrow>
               (let finalScore = or_else s (Num (Fin 0))
                in case riskTernary h finalScore 70 35 of
                     Inl e \<Rightarrow> Inl e
                   | Inr level \<Rightarrow>
                       (case Math_min h finalScore (Num (Fin 100)) of
                          Inl e \<Rightarrow> Inl e
                        | Inr m \<Rightarrow>
                            Inr \<lparr>riskLevel = level,
                                 score = Num m,
                                 explanation = field aiResult ''explanation'',
                                 reasons = field aiResult ''reasons'',
                                 advice = field aiResult ''advice'',
                                 layoutCheck = Undefined, anomalies = Undefined\<rparr>))))"

definition analyzeText :: "host \<Rightarrow> string \<Rightarrow> Country \<Rightarrow> gateway \<Rightarrow> ScanResult" where
  "analyzeText h text country gw =
     (if trim_is_empty text then
        \<lparr>riskLevel = Low, score = Num (Fin 0), explanation = Str ''Please enter a message.'',
         reasons = Arr [], advice = Arr [], layoutCheck = Undefined, anomalies = Undefined\<rparr>
      else
        (case analyzeText_try h gw of
           Inr result \<Rightarrow> result
         | Inl e \<Rightarrow>
             \<lparr>riskLevel = Low, score = Num (Fin 0), explanation = Str ''Analysis failed.'',
              reasons = Arr [], advice = Arr [], layoutCheck = Undefined,
              anomalies = Undefined\<rparr>))"

section \<open>analyzeLink\<close>

definition analyzeLink_try :: "host \<Rightarrow> string \<Rightarrow> gateway \<Rightarrow> error + ScanResult" where
  "analyzeLink_try h url gw =
     (case gw of
        Throws \<Rightarrow> Inl GatewayError
      | Responds aiResult \<Rightarrow>
          (case get aiResult ''score'' of
             Inl e \<Rightarrow> Inl e
           | Inr s \<Rightarrow>
               (let score = or_else s (Num (Fin 0))
                in case riskTernary h score 70 35 of
                     Inl e \<Rightarrow> Inl e
                   | Inr level \<Rightarrow>
                       Inr \<lparr>riskLevel = level,
                            score = score,
                            explanation = Str (''Domain audit complete for '' @ url @ ''.''),
                            reasons = field aiResult ''reasons'',
                            advice = Arr [Str ''Check for subtle misspellings in the URL.''],
                            layoutCheck = Undefined, anomalies = Undefined\<rparr>)))"

definition analyzeLink :: "host \<Rightarrow> string \<Rightarrow> Country \<Rightarrow> gateway \<Rightarrow> ScanResult" where
  "analyzeLink h url country gw =
     (case analyzeLink_try h url gw of
        Inr result \<Rightarrow> result
      | Inl e \<Rightarrow>
          \<lparr>riskLevel = Low, score = Num (Fin 0), explanation = Str ''Link analysis failed.'',
           reasons = Arr [], advice = Arr [], layoutCheck = Undefined, anomalies = Undefined\<rparr>)"

section \<open>analyzeForensics\<close>

subsection \<open>1. Initial metadata audit\<close>

text \<open>
  The running \<open>score\<close> and \<open>reasons\<close> of the source are threaded through as a pair. The
  last step reads \<open>gpsLongitude.toFixed\<close> whenever \<open>gpsLatitude\<close> is not \<open>undefined\<close>: with
  the longitude missing that is a TypeError, raised outside every \<open>try\<close>.
\<close>

definition softwareRule :: "metadata \<Rightarrow> int \<times> string list \<Rightarrow> int \<times> string list" where
  "softwareRule md st =
     (case software md of
        None \<Rightarrow> st
      | Some sw \<Rightarrow>
          (if sw \<noteq> [] \<and> manipulationTools_test sw then
             (fst st + 40,
              snd st @ [''Modification Signature: File processed via '' @ sw @ ''.''])
           else st))"

definition timestampRule :: "metadata \<Rightarrow> int \<times> string list \<Rightarrow> int \<times> string list" where
  "timestampRule md st =
     (if isAlteredTimestamp md then
        (fst st + 30,
         snd st @ [''Epoch Discrepancy: Metadata suggests creation date was altered post-capture.''])
      else st)"

definition exifRule :: "metadata \<Rightarrow> int \<times> string list \<Rightarrow> int \<times> string list" where
  "exifRule md st =
     (if hasExif md \<and> isScreenshot md \<and>
         (truthy_string (exif_make md) \<or> truthy_string (exif_model md)) then
        (fst st + 15,
         snd st @ [''Inconsistent Metadata: File claims to be a screenshot but contains camera lens data.''])
      else st)"

definition gpsRule ::
  "host \<Rightarrow> metadata \<Rightarrow> int \<times> string list \<Rightarrow> error + int \<times> string list" where
  "gpsRule h md st =
     (case gpsLatitude md of
        None \<Rightarrow> Inr st
      | Some lat \<Rightarrow>
          (case gpsLongitude md of
             None \<Rightarrow> Inl TypeError
           | Some lon \<Rightarrow>
               Inr (fst st,
                    snd st @ [''Geolocation Marker Found: '' @ toFixed h 2 lat @ '', '' @
                              toFixed h 2 lon])))"

definition metadataAudit ::
  "host \<Rightarrow> metadata option \<Rightarrow> int \<times> string list \<Rightarrow> error + int \<times> string list" where
  "metadataAudit h metadata st =
     (case metadata of
        None \<Rightarrow> Inr st
      | Some md \<Rightarrow> gpsRule h md (exifRule md (timestampRule md (softwareRule md st))))"

subsection \<open>2. Structural aspect ratio audit\<close>

text \<open>
  \<open>ratio\<close> is the quotient rounded to a double, \<open>ratio - r\<close> is rounded again, and \<open>0.1\<close>
  is the double nearest to one tenth.
\<close>

definition isStandard :: "imageSize \<Rightarrow> PlatformTemplate \<Rightarrow> bool" where
  "isStandard sz template =
     (let ratio = jsdiv (height sz) (width sz)
      in list_ex (\<lambda>r. jslt (jsabs (jssub ratio r)) (fl (1 / 10))) (aspectRatios template))"

definition aspectRatioAudit ::
  "imageSize \<Rightarrow> string \<Rightarrow> int \<times> string list \<Rightarrow> error + int \<times> string list" where
  "aspectRatioAudit sz platform st =
     (case PLATFORM_TEMPLATES_get platform of
        NoEntry \<Rightarrow> Inr st
      | Inherited \<Rightarrow> Inl TypeError
      | Template template \<Rightarrow>
          (if \<not> isStandard sz template then
             Inr (fst st + 20,
                  snd st @ [''Geometric Mismatch: Screenshot dimensions do not match the '' @
                            platform @ '' standard.''])
           else Inr st))"

text \<open>Parts 1 and 2 together, from \<open>score = 0\<close> and \<open>reasons = []\<close>.\<close>

definition heuristicAudit ::
  "host \<Rightarrow> metadata option \<Rightarrow> imageSize \<Rightarrow> string \<Rightarrow> error + int \<times> string list" where
  "heuristicAudit h metadata sz platform =
     (case metadataAudit h metadata (0, []) of
        Inl e \<Rightarrow> Inl e
      | Inr st \<Rightarrow> aspectRatioAudit sz platform st)"

subsection \<open>3. AI vision audit and the fallback\<close>

text \<open>
  The local variables \<open>score\<close>, \<open>reasons\<close>, \<open>anomalies\<close> and \<open>layoutCheck\<close>, in this order.
\<close>

type_synonym locals = "jsnum \<times> jsval list \<times> jsval list \<times> jsval"

text \<open>The \<open>return\<close> inside the \<open>try\<close> block.\<close>

definition visionResult :: "locals \<Rightarrow> jsval \<Rightarrow> ScanResult" where
  "visionResult vars aiResult =
     (let score = fst vars;
          reasons = fst (snd vars);
          anomalies = fst (snd (snd vars));
          layoutCheck = snd (snd (snd vars))
      in \<lparr>riskLevel = (if jslt (Fin 70) score then High
                        else if jslt (Fin 35) score then Medium else Low),
          score = Num (jsmin score (Fin 100)),
          explanation =
            or_else (field aiResult ''aiExplanation'') (Str ''Forensic vision audit complete.''),
          reasons = Arr (new_Set reasons),
          advice = Arr [Str ''Cross-verify this Transaction ID in your banking app.'',
                        Str ''Check for blurred edges around the currency symbol.'',
                        Str ''Check if the fonts are consistent across the entire screen.''],
          layoutCheck = layoutCheck,
          anomalies = Arr anomalies\<rparr>)"

text \<open>\<open>Math.max(score, aiResult.aiScore || 0)\<close> for the current \<open>score\<close>: its new value.\<close>

definition mergeScore :: "host \<Rightarrow> jsnum \<Rightarrow> jsval \<Rightarrow> error + jsnum" where
  "mergeScore h current aiResult =
     (case get aiResult ''aiScore'' of
        Inl e \<Rightarrow> Inl e
      | Inr aiScore \<Rightarrow> Math_max h (Num current) (or_else aiScore (Num (Fin 0))))"

text \<open>
  The \<open>try\<close> block after \<open>JSON.parse\<close>: four assignments and the \<open>return\<close>. \<open>Inl\<close> is the
  \<open>catch\<close>, with the local variables as they are when the exception is raised: reading
  \<open>aiScore\<close> of \<open>null\<close> or converting it inside \<open>Math.max\<close> raises before \<open>score\<close> is assigned,
  spreading \<open>aiReasons\<close> raises after it, spreading \<open>detectedAnomalies\<close> raises after the
  reasons have been pushed as well.
\<close>

definition visionTry :: "host \<Rightarrow> gateway \<Rightarrow> locals \<Rightarrow> locals + ScanResult" where
  "visionTry h gw vars =
     (let score = fst vars;
          reasons = fst (snd vars);
          anomalies = fst (snd (snd vars));
          layoutCheck = snd (snd (snd vars))
      in case gw of
           Throws \<Rightarrow> Inl vars
         | Responds aiResult \<Rightarrow>
             (case mergeScore h score aiResult of
                Inl e \<Rightarrow> Inl vars
              | Inr score1 \<Rightarrow>
                  (case spread (or_else (field aiResult ''aiReasons'') (Arr [])) of
                     Inl e \<Rightarrow> Inl (score1, reasons, anomalies, layoutCheck)
                   | Inr aiReasons \<Rightarrow>
                       (case spread (or_else (field aiResult ''detectedAnomalies'') (Arr [])) of
                          Inl e \<Rightarrow> Inl (score1, reasons @ aiReasons, anomalies, layoutCheck)
                        | Inr detected \<Rightarrow>
                            Inr (visionResult
                                  (score1, reasons @ aiReasons, anomalies @ detected,
                                   or_else (field aiResult ''layoutStatus'') (Str ''Suspicious''))
                                  aiResult)))))"

text \<open>The fallback after the \<open>try\<close> block: the layout verdict from the score, and the \<open>return\<close>.\<close>

definition fallbackResult :: "locals \<Rightarrow> ScanResult" where
  "fallbackResult vars =
     (let score = fst vars;
          reasons = fst (snd vars);
          anomalies = fst (snd (snd vars));
          layoutCheck0 = snd (snd (snd vars));
          layoutCheck =
            (if layoutCheck0 = Str ''N/A'' then
               (if jslt (Fin 60) score then Str ''Failed''
                else if jslt (Fin 25) score then Str ''Suspicious'' else Str ''Passed'')
             else layoutCheck0)
      in \<lparr>riskLevel = (if jslt (Fin 65) score then High
                        else if jslt (Fin 30) score then Medium else Low),
          score = Num (jsmin score (Fin 100)),
          explanation = Str ''Basic heuristic forensic audit complete.'',
          reasons = Arr (new_Set reasons),
          advice = Arr [Str ''Verify the transaction manually.'',
                        Str ''Check for editing artifacts.''],
          layoutCheck = layoutCheck,
          anomalies = Arr anomalies\<rparr>)"

text \<open>
  The entry point. \<open>platform_arg\<close> is the optional fifth argument, \<open>'General'\<close> when left
  out. The result is \<open>Inl\<close> when the returned promise rejects. \<open>anomalies\<close> starts empty and
  \<open>layoutCheck\<close> starts as \<open>'N/A'\<close>; neither is touched before the \<open>try\<close> block, which is
  entered for a truthy \<open>base64Image\<close> only.
\<close>

definition default_platform :: "string option \<Rightarrow> string" where
  "default_platform platform_arg = (case platform_arg of None \<Rightarrow> ''General'' | Some p \<Rightarrow> p)"

definition initial_locals :: "int \<times> string list \<Rightarrow> locals" where
  "initial_locals st = (Fin (of_int (fst st)), map Str (snd st), [], Str ''N/A'')"

definition analyzeForensics ::
  "host \<Rightarrow> ScanMode \<Rightarrow> metadata option \<Rightarrow> imageSize \<Rightarrow> Country \<Rightarrow> string option \<Rightarrow>
   string option \<Rightarrow> gateway \<Rightarrow> error + ScanResult" where
  "analyzeForensics h mode metadata sz country platform_arg base64Image gw =
     (let platform = default_platform platform_arg
      in case heuristicAudit h metadata sz platform of
           Inl e \<Rightarrow> Inl e
         | Inr st \<Rightarrow>
             (if truthy_string base64Image then
                (case visionTry h gw (initial_locals st) of
                   Inr result \<Rightarrow> Inr result
                 | Inl vars \<Rightarrow> Inr (fallbackResult vars))
              else Inr (fallbackResult (initial_locals st))))"

section \<open>The notions of the specification\<close>

subsection \<open>The five scoring rules\<close>

text \<open>
  The specification describes the heuristic score as a sum: each rule contributes a fixed
  number of points when it fires and nothing otherwise, and emits one reason when it
  fires. The definitions below follow that wording; the audit of the source, which updates
  a running score and a running list, is compared with them in the properties.
\<close>

definition points :: "bool \<Rightarrow> int \<Rightarrow> int" where
  "points fires n = (if fires then n else 0)"

definition emits :: "bool \<Rightarrow> string \<Rightarrow> string list" where
  "emits fires reason = (if fires then [reason] else [])"

text \<open>One of the seven words is a part of the software string, case set aside.\<close>

definition editing_tools :: "string list" where
  "editing_tools =
     [''photoshop'', ''canva'', ''picsart'', ''snapseed'', ''editor'', ''paint'', ''express'']"

definition editingToolRule :: "metadata option \<Rightarrow> bool" where
  "editingToolRule metadata =
     (case metadata of
        None \<Rightarrow> False
      | Some md \<Rightarrow>
          (case software md of
             None \<Rightarrow> False
           | Some sw \<Rightarrow> (\<exists>word \<in> set editing_tools. sublist word (map toLower sw))))"

definition timestampFlag :: "metadata option \<Rightarrow> bool" where
  "timestampFlag metadata = (case metadata of None \<Rightarrow> False | Some md \<Rightarrow> isAlteredTimestamp md)"

text \<open>A make or a model is present when the field holds a string that is not empty.\<close>

definition present :: "string option \<Rightarrow> bool" where
  "present v = (v \<noteq> None \<and> v \<noteq> Some [])"

definition exifContradiction :: "metadata option \<Rightarrow> bool" where
  "exifContradiction metadata =
     (case metadata of
        None \<Rightarrow> False
      | Some md \<Rightarrow> hasExif md \<and> isScreenshot md \<and> (present (exif_make md) \<or> present (exif_model md)))"

text \<open>
  The coordinates are present when both are; \<open>gpsHalfPresent\<close> is the case the source
  does not survive, a latitude without a longitude.
\<close>

definition gpsPresent :: "metadata option \<Rightarrow> bool" where
  "gpsPresent metadata =
     (case metadata of
        None \<Rightarrow> False
      | Some md \<Rightarrow> gpsLatitude md \<noteq> None \<and> gpsLongitude md \<noteq> None)"

definition gpsHalfPresent :: "metadata option \<Rightarrow> bool" where
  "gpsHalfPresent metadata =
     (case metadata of
        None \<Rightarrow> False
      | Some md \<Rightarrow> gpsLatitude md \<noteq> None \<and> gpsLongitude md = None)"

text \<open>
  An accepted ratio \<open>r\<close> is within the tolerance of \<open>ratio\<close> when the double \<open>\<bar>ratio - r\<bar>\<close> is
  below the double \<open>0.1\<close>. The geometry rule fires when the platform is a name of the
  registry and no accepted ratio is within the tolerance of height / width.
\<close>

definition within_tolerance :: "jsnum \<Rightarrow> jsnum \<Rightarrow> bool" where
  "within_tolerance ratio r = jslt (jsabs (jssub ratio r)) (fl (1 / 10))"

definition geometryMismatch :: "imageSize \<Rightarrow> string \<Rightarrow> bool" where
  "geometryMismatch sz platform =
     (case map_of PLATFORM_TEMPLATES platform of
        None \<Rightarrow> False
      | Some template \<Rightarrow>
          \<not> (\<exists>r \<in> set (aspectRatios template).
                within_tolerance (jsdiv (height sz) (width sz)) r))"

text \<open>
  The same rule read in exact arithmetic, on the ratios of the registry as fractions: no
  accepted ratio \<open>r\<close> has \<open>\<bar>height / width - r\<bar> < 1 / 10\<close>.
\<close>

definition exact_ratios :: "(string \<times> rat list) list" where
  "exact_ratios =
     [(''Google Pay'', [39 / 2 / 9, 20 / 9, 16 / 9]),
      (''PhonePe'', [39 / 2 / 9, 20 / 9]),
      (''Paytm'', [39 / 2 / 9, 20 / 9, 18 / 9]),
      (''PayPal'', [16 / 9, 39 / 2 / 9])]"

definition exactMismatch :: "rat \<Rightarrow> rat \<Rightarrow> string \<Rightarrow> bool" where
  "exactMismatch h w platform =
     (case map_of exact_ratios platform of
        None \<Rightarrow> False
      | Some rs \<Rightarrow> list_all (\<lambda>r. \<not> \<bar>h / w - r\<bar> < 1 / 10) rs)"

definition softwareOf :: "metadata option \<Rightarrow> string" where
  "softwareOf metadata =
     (case metadata of None \<Rightarrow> [] | Some md \<Rightarrow> (case software md of None \<Rightarrow> [] | Some sw \<Rightarrow> sw))"

definition gpsText :: "host \<Rightarrow> metadata option \<Rightarrow> string" where
  "gpsText h metadata =
     (case metadata of None \<Rightarrow> []
      | Some md \<Rightarrow>
          (case (gpsLatitude md, gpsLongitude md) of
             (Some lat, Some lon) \<Rightarrow> toFixed h 2 lat @ '', '' @ toFixed h 2 lon
           | _ \<Rightarrow> []))"

definition ruleScore :: "metadata option \<Rightarrow> imageSize \<Rightarrow> string \<Rightarrow> int" where
  "ruleScore metadata sz platform =
     points (editingToolRule metadata) 40 + points (timestampFlag metadata) 30 +
     points (exifContradiction metadata) 15 + points (gpsPresent metadata) 0 +
     points (geometryMismatch sz platform) 20"

definition ruleReasons :: "host \<Rightarrow> metadata option \<Rightarrow> imageSize \<Rightarrow> string \<Rightarrow> string list" where
  "ruleReasons h metadata sz platform =
     emits (editingToolRule metadata)
       (''Modification Signature: File processed via '' @ softwareOf metadata @ ''.'') @
     emits (timestampFlag metadata)
       ''Epoch Discrepancy: Metadata suggests creation date was altered post-capture.'' @
     emits (exifContradiction metadata)
       ''Inconsistent Metadata: File claims to be a screenshot but contains camera lens data.'' @
     emits (gpsPresent metadata) (''Geolocation Marker Found: '' @ gpsText h metadata) @
     emits (geometryMismatch sz platform)
       (''Geometric Mismatch: Screenshot dimensions do not match the '' @ platform @ '' standard.'')"

subsection \<open>Risk classification\<close>

text \<open>
  A threshold table on numbers: High above \<open>high\<close>, Medium above \<open>medium\<close>, Low otherwise;
  \<open>NaN\<close> is above nothing.
\<close>

definition classify :: "rat \<Rightarrow> rat \<Rightarrow> jsnum \<Rightarrow> RiskLevel" where
  "classify high medium n =
     (case n of
        Fin s \<Rightarrow> (if s > high then High else if s > medium then Medium else Low)
      | Infinity \<Rightarrow> High
      | NegInfinity \<Rightarrow> Low
      | NaN \<Rightarrow> Low)"

text \<open>\<open>n\<close> is a number and at least \<open>c\<close>.\<close>

definition at_least :: "jsnum \<Rightarrow> rat \<Rightarrow> bool" where
  "at_least n c = (case n of Fin s \<Rightarrow> c \<le> s | Infinity \<Rightarrow> True | NegInfinity \<Rightarrow> False | NaN \<Rightarrow> False)"

subsection \<open>Removal of duplicates\<close>

text \<open>
  The entries of a list that stand at the first occurrence of their value, in the order
  of the list: entry \<open>i\<close> is kept when it is not among the entries before it.
\<close>

definition first_occurrences :: "'a list \<Rightarrow> 'a list" where
  "first_occurrences xs =
     map (\<lambda>i. xs ! i) (filter (\<lambda>i. xs ! i \<notin> set (take i xs)) [0..<length xs])"

text \<open>The strings among the entries of an array, in order.\<close>

fun strings_of :: "jsval list \<Rightarrow> string list" where
  "strings_of [] = []"
| "strings_of (Str s # vs) = s # strings_of vs"
| "strings_of (v # vs) = strings_of vs"

subsection \<open>What a reply contributes\<close>

text \<open>
  The reply is looked at when an image was supplied and a value other than \<open>null\<close> was
  parsed. \<open>aiScoreNumber\<close> is then the number its \<open>aiScore\<close> stands for (0 when it is missing
  or falsy), if the conversion yields one.
\<close>

definition consultedReply :: "string option \<Rightarrow> gateway \<Rightarrow> jsval option" where
  "consultedReply base64Image gw =
     (case gw of
        Throws \<Rightarrow> None
      | Responds v \<Rightarrow>
          (if base64Image \<noteq> None \<and> base64Image \<noteq> Some [] \<and> v \<noteq> Null \<and> v \<noteq> Undefined
           then Some v else None))"

definition aiScoreNumber :: "host \<Rightarrow> string option \<Rightarrow> gateway \<Rightarrow> jsnum option" where
  "aiScoreNumber h base64Image gw =
     (case consultedReply base64Image gw of
        None \<Rightarrow> None
      | Some v \<Rightarrow>
          (case ToNumber h (if truthy (field v ''aiScore'') then field v ''aiScore'' else Num (Fin 0)) of
             Inl e \<Rightarrow> None
           | Inr n \<Rightarrow> Some n))"

text \<open>
  The entries a list-valued field of the reply contributes when it is spread: none when
  the field is missing or falsy, \<open>None\<close> when the field cannot be spread.
\<close>

definition entries :: "jsval \<Rightarrow> string \<Rightarrow> jsval list option" where
  "entries v k =
     (case field v k of
        Arr xs \<Rightarrow> Some xs
      | Str s \<Rightarrow> Some (map (\<lambda>c. Str [c]) s)
      | Undefined \<Rightarrow> Some []
      | Null \<Rightarrow> Some []
      | Bool b \<Rightarrow> (if b then None else Some [])
      | Num n \<Rightarrow> (if n = Fin 0 \<or> n = NaN then Some [] else None)
      | Obj kv \<Rightarrow> None)"

text \<open>
  The reasons of the reply that reach the list of reasons: those of \<open>aiReasons\<close>, once the
  score has been merged. The deep-vision result is available when the anomalies can be
  spread as well: the \<open>try\<close> block then reaches its \<open>return\<close>.
\<close>

definition pushedReasons :: "host \<Rightarrow> string option \<Rightarrow> gateway \<Rightarrow> jsval list" where
  "pushedReasons h base64Image gw =
     (case (aiScoreNumber h base64Image gw, consultedReply base64Image gw) of
        (Some n, Some v) \<Rightarrow> (case entries v ''aiReasons'' of None \<Rightarrow> [] | Some xs \<Rightarrow> xs)
      | _ \<Rightarrow> [])"

definition deepVisionAvailable :: "host \<Rightarrow> string option \<Rightarrow> gateway \<Rightarrow> bool" where
  "deepVisionAvailable h base64Image gw =
     (case (aiScoreNumber h base64Image gw, consultedReply base64Image gw) of
        (Some n, Some v) \<Rightarrow> entries v ''aiReasons'' \<noteq> None \<and> entries v ''detectedAnomalies'' \<noteq> None
      | _ \<Rightarrow> False)"

text \<open>
  The number the field \<open>k\<close> of a reply stands for where the text and link scans use it (0
  when the field is missing or falsy): \<open>None\<close> when the gateway call fails, when the reply is
  \<open>null\<close> and when the field cannot be converted to a number.
\<close>

definition replyNumber :: "host \<Rightarrow> gateway \<Rightarrow> string \<Rightarrow> jsnum option" where
  "replyNumber h gw k =
     (case gw of
        Throws \<Rightarrow> None
      | Responds v \<Rightarrow>
          (if v = Null \<or> v = Undefined then None
           else
             (case ToNumber h (if truthy (field v k) then field v k else Num (Fin 0)) of
                Inl e \<Rightarrow> None
              | Inr n \<Rightarrow> Some n)))"

text \<open>The number a score field holds, when it holds one.\<close>

definition numeric :: "jsval \<Rightarrow> jsnum option" where
  "numeric v = (case v of Num n \<Rightarrow> Some n | _ \<Rightarrow> None)"

text \<open>
  The heuristic-only fallback result for a heuristic score \<open>hs\<close> and heuristic reasons \<open>rs\<close>:
  the score alone decides the risk level (thresholds 65 and 30) and the layout verdict
  (thresholds 60 and 25), and there are no anomalies.
\<close>

definition heuristicOnly :: "int \<Rightarrow> string list \<Rightarrow> ScanResult" where
  "heuristicOnly hs rs =
     \<lparr>riskLevel = (if 65 < hs then High else if 30 < hs then Medium else Low),
      score = Num (Fin (of_int (min hs 100))),
      explanation = Str ''Basic heuristic forensic audit complete.'',
      reasons = Arr (map Str (first_occurrences rs)),
      advice = Arr [Str ''Verify the transaction manually.'', Str ''Check for editing artifacts.''],
      layoutCheck =
        Str (if 60 < hs then ''Failed'' else if 25 < hs then ''Suspicious'' else ''Passed''),
      anomalies = Arr []\<rparr>"

text \<open>A host for inputs on which neither of its conversions is consulted.\<close>

definition idle_host :: host where
  "idle_host = \<lparr>NumberToString = (\<lambda>n. []), StringToNumber = (\<lambda>s. NaN)\<rparr>"

section \<open>Properties\<close>

subsection \<open>Evaluation on concrete inputs\<close>

lemma floor_rat_numeral_div: "\<lfloor>numeral a / numeral b :: rat\<rfloor> = numeral a div numeral b"
  using floor_divide_of_int_eq [of "numeral a" "numeral b", where ?'a = rat] by simp

lemmas fl_eval = fl_def floor_log2_def floor_log2_up.simps floor_log2_down.simps pow2_def
  round_half_even_def Let_def floor_rat_numeral_div

lemmas rule_eval = ruleScore_def ruleReasons_def points_def emits_def timestampFlag_def
  exifContradiction_def present_def gpsPresent_def gpsHalfPresent_def softwareOf_def gpsText_def

lemmas code_eval = manipulationTools_test_def manipulationTools_def toLower_def toFixed_def
  fixed_digits_def decimal.simps digit_char_def isStandard_def PLATFORM_TEMPLATES_get_def
  PLATFORM_TEMPLATES_def Object_prototype_keys_def

subsection \<open>The pattern, the registry and the rendering of coordinates\<close>

lemma starts_with_iff: "starts_with p s \<longleftrightarrow> (\<exists>post. s = p @ post)"
  by (induction p s rule: starts_with.induct) auto

lemma occurs_in_iff: "occurs_in p s \<longleftrightarrow> (\<exists>pre post. s = pre @ p @ post)"
proof (induction s)
  case Nil
  show ?case by (cases p) auto
next
  case (Cons c cs)
  show ?case
  proof
    assume "occurs_in p (c # cs)"
    then consider "starts_with p (c # cs)" | "occurs_in p cs"
      by auto
    then show "\<exists>pre post. c # cs = pre @ p @ post"
    proof cases
      case 1
      then obtain post where "c # cs = p @ post"
        by (auto simp: starts_with_iff)
      then have "c # cs = [] @ p @ post" by simp
      then show ?thesis by blast
    next
      case 2
      then obtain pre post where "cs = pre @ p @ post"
        using Cons.IH by auto
      then have "c # cs = (c # pre) @ p @ post" by simp
      then show ?thesis by blast
    qed
  next
    assume "\<exists>pre post. c # cs = pre @ p @ post"
    then obtain pre post where eq: "c # cs = pre @ p @ post"
      by blast
    show "occurs_in p (c # cs)"
    proof (cases pre)
      case Nil
      with eq have "starts_with p (c # cs)"
        by (auto simp: starts_with_iff)
      then show ?thesis by simp
    next
      case (Cons d pre')
      with eq have "cs = pre' @ p @ post" by simp
      then have "occurs_in p cs"
        using Cons.IH by blast
      then show ?thesis by simp
    qed
  qed
qed

lemma occurs_in_sublist: "occurs_in p s \<longleftrightarrow> sublist p s"
  by (simp add: occurs_in_iff sublist_def)

lemma manipulationTools_test_iff:
  "manipulationTools_test s \<longleftrightarrow> (\<exists>word \<in> set editing_tools. sublist word (map toLower s))"
  by (simp add: manipulationTools_test_def list_ex_iff occurs_in_sublist manipulationTools_def
      editing_tools_def)

lemma manipulationTools_test_Nil: "\<not> manipulationTools_test []"
  by (simp add: manipulationTools_test_def manipulationTools_def)

lemma editingToolRule_code:
  "editingToolRule metadata =
     (case metadata of
        None \<Rightarrow> False
      | Some md \<Rightarrow> (case software md of None \<Rightarrow> False | Some sw \<Rightarrow> manipulationTools_test sw))"
  by (simp add: editingToolRule_def manipulationTools_test_iff split: option.splits)

lemma isStandard_iff:
  "isStandard sz template \<longleftrightarrow>
     (\<exists>r \<in> set (aspectRatios template). within_tolerance (jsdiv (height sz) (width sz)) r)"
  by (simp add: isStandard_def list_ex_iff within_tolerance_def)

lemma geometryMismatch_code:
  "geometryMismatch sz platform =
     (case map_of PLATFORM_TEMPLATES platform of
        None \<Rightarrow> False
      | Some template \<Rightarrow> \<not> isStandard sz template)"
  by (simp add: geometryMismatch_def isStandard_iff split: option.splits)

lemma registry_names:
  "map_of PLATFORM_TEMPLATES platform \<noteq> None \<longleftrightarrow>
     platform \<in> {''Google Pay'', ''PhonePe'', ''Paytm'', ''PayPal''}"
  by (simp add: PLATFORM_TEMPLATES_def)

lemma inherited_not_registered:
  "platform \<in> set Object_prototype_keys \<Longrightarrow> map_of PLATFORM_TEMPLATES platform = None"
  by (auto simp: PLATFORM_TEMPLATES_def Object_prototype_keys_def)

lemma registry_not_inherited:
  "map_of PLATFORM_TEMPLATES platform \<noteq> None \<Longrightarrow> platform \<notin> set Object_prototype_keys"
  using inherited_not_registered [of platform] by auto

lemma truthy_string_present: "truthy_string v = present v"
  by (cases v) (simp_all add: truthy_string_def present_def)

text \<open>\<open>toFixed(2)\<close> renders the nearest multiple of 1/100, with two digits after the point.\<close>

lemma decimal_small: "n < 10 \<Longrightarrow> decimal n = [digit_char n]"
  by (simp add: decimal.simps)

lemma decimal_step: "10 \<le> n \<Longrightarrow> decimal n = decimal (n div 10) @ [digit_char n]"
  by (subst decimal.simps) simp

lemma length_decimal_pos: "0 < length (decimal n)"
  by (subst decimal.simps) simp

lemma fixed_digits_2:
  "fixed_digits 2 n = decimal (n div 100) @ ''.'' @ [digit_char (n div 10), digit_char n]"
proof -
  consider "n < 10" | "10 \<le> n" "n < 100" | "100 \<le> n"
    by linarith
  then show ?thesis
  proof cases
    case 1
    then show ?thesis
      by (simp add: fixed_digits_def decimal_small digit_char_def)
  next
    case 2
    then have "n div 10 < 10" by simp
    with 2 show ?thesis
      by (simp add: fixed_digits_def decimal_step decimal_small digit_char_def)
  next
    case 3
    then have a: "10 \<le> n" and b: "10 \<le> n div 10" by simp_all
    have c: "n div 10 div 10 = n div 100"
      by (simp add: div_mult2_eq [symmetric])
    have "decimal n = decimal (n div 100) @ [digit_char (n div 10), digit_char n]"
      using decimal_step [OF a] decimal_step [OF b] by (simp add: c)
    moreover obtain d ds where "decimal (n div 100) = d # ds"
      using length_decimal_pos [of "n div 100"] by (cases "decimal (n div 100)") auto
    ultimately show ?thesis
      by (simp add: fixed_digits_def Let_def)
  qed
qed

lemma toFixed_2_rounds:
  assumes "\<bar>q\<bar> < 10 ^ 21"
  shows "\<exists>n. toFixed h 2 (Fin q) =
           (if q < 0 then ''-'' else []) @ decimal (n div 100) @ ''.'' @
             [digit_char (n div 10), digit_char n] \<and>
         \<bar>of_nat n / 100 - \<bar>q\<bar>\<bar> \<le> 1 / 200"
proof -
  let ?n = "nat \<lfloor>\<bar>q\<bar> * 10 ^ 2 + 1 / 2\<rfloor>"
  define f :: rat where "f = of_int \<lfloor>\<bar>q\<bar> * 10 ^ 2 + 1 / 2\<rfloor>"
  have "0 \<le> \<lfloor>\<bar>q\<bar> * 10 ^ 2 + 1 / 2\<rfloor>"
    by simp
  then have n: "(of_nat ?n :: rat) = f"
    by (simp add: f_def)
  have "f \<le> \<bar>q\<bar> * 10 ^ 2 + 1 / 2" and "\<bar>q\<bar> * 10 ^ 2 + 1 / 2 < f + 1"
    unfolding f_def by linarith+
  then have "f \<le> \<bar>q\<bar> * 100 + 1 / 2" and "\<bar>q\<bar> * 100 + 1 / 2 < f + 1"
    by simp_all
  then have "\<bar>f / 100 - \<bar>q\<bar>\<bar> \<le> 1 / 200"
    unfolding abs_le_iff by linarith
  then have "\<bar>of_nat ?n / 100 - \<bar>q\<bar>\<bar> \<le> 1 / 200"
    by (simp only: n)
  moreover from assms have "toFixed h 2 (Fin q) =
      (if q < 0 then ''-'' else []) @ decimal (?n div 100) @ ''.'' @
        [digit_char (?n div 10), digit_char ?n]"
    by (simp add: toFixed_def fixed_digits_2)
  ultimately show ?thesis
    by blast
qed

subsection \<open>The heuristic audit\<close>

lemma softwareRule_eq:
  "softwareRule md st =
     (fst st + points (editingToolRule (Some md)) 40,
      snd st @ emits (editingToolRule (Some md))
        (''Modification Signature: File processed via '' @ softwareOf (Some md) @ ''.''))"
proof (cases "software md")
  case None
  then show ?thesis
    by (cases st) (simp add: softwareRule_def editingToolRule_code points_def emits_def)
next
  case (Some sw)
  then show ?thesis
    by (cases st; cases "sw = []")
      (simp_all add: softwareRule_def editingToolRule_code points_def emits_def softwareOf_def
        manipulationTools_test_Nil)
qed

lemma timestampRule_eq:
  "timestampRule md st =
     (fst st + points (timestampFlag (Some md)) 30,
      snd st @ emits (timestampFlag (Some md))
        ''Epoch Discrepancy: Metadata suggests creation date was altered post-capture.'')"
  by (cases st) (simp add: timestampRule_def timestampFlag_def points_def emits_def)

lemma exifRule_eq:
  "exifRule md st =
     (fst st + points (exifContradiction (Some md)) 15,
      snd st @ emits (exifContradiction (Some md))
        ''Inconsistent Metadata: File claims to be a screenshot but contains camera lens data.'')"
  by (cases st)
    (simp add: exifRule_def exifContradiction_def truthy_string_present points_def emits_def)

lemma gpsRule_eq:
  "gpsRule h md st =
     (if gpsHalfPresent (Some md) then Inl TypeError
      else Inr (fst st + points (gpsPresent (Some md)) 0,
                snd st @ emits (gpsPresent (Some md))
                  (''Geolocation Marker Found: '' @ gpsText h (Some md))))"
  by (cases st)
    (simp add: gpsRule_def gpsHalfPresent_def gpsPresent_def gpsText_def points_def emits_def
      split: option.splits)

lemma metadataAudit_rules:
  "metadataAudit h metadata (0, []) =
     (if gpsHalfPresent metadata then Inl TypeError
      else Inr (points (editingToolRule metadata) 40 + points (timestampFlag metadata) 30 +
                points (exifContradiction metadata) 15 + points (gpsPresent metadata) 0,
                emits (editingToolRule metadata)
                  (''Modification Signature: File processed via '' @ softwareOf metadata @ ''.'') @
                emits (timestampFlag metadata)
                  ''Epoch Discrepancy: Metadata suggests creation date was altered post-capture.'' @
                emits (exifContradiction metadata)
                  ''Inconsistent Metadata: File claims to be a screenshot but contains camera lens data.'' @
                emits (gpsPresent metadata) (''Geolocation Marker Found: '' @ gpsText h metadata)))"
proof (cases metadata)
  case None
  then show ?thesis
    by (simp add: metadataAudit_def gpsHalfPresent_def editingToolRule_def timestampFlag_def
        exifContradiction_def gpsPresent_def points_def emits_def)
next
  case (Some md)
  then show ?thesis
    by (simp add: metadataAudit_def gpsRule_eq exifRule_eq timestampRule_eq softwareRule_eq)
qed

lemma aspectRatioAudit_rules:
  "aspectRatioAudit sz platform st =
     (if PLATFORM_TEMPLATES_get platform = Inherited then Inl TypeError
      else Inr (fst st + points (geometryMismatch sz platform) 20,
                snd st @ emits (geometryMismatch sz platform)
                  (''Geometric Mismatch: Screenshot dimensions do not match the '' @ platform @
                   '' standard.'')))"
  by (auto simp: aspectRatioAudit_def PLATFORM_TEMPLATES_get_def geometryMismatch_code points_def
      emits_def split: option.splits registry_value.splits)

lemma inherited_iff:
  "PLATFORM_TEMPLATES_get platform = Inherited \<longleftrightarrow> platform \<in> set Object_prototype_keys"
  using registry_not_inherited [of platform]
  by (auto simp: PLATFORM_TEMPLATES_get_def split: option.splits)

lemma heuristicAudit_rules:
  "heuristicAudit h metadata sz platform =
     (if gpsHalfPresent metadata \<or> platform \<in> set Object_prototype_keys then Inl TypeError
      else Inr (ruleScore metadata sz platform, ruleReasons h metadata sz platform))"
  by (simp add: heuristicAudit_def metadataAudit_rules aspectRatioAudit_rules inherited_iff
      ruleScore_def ruleReasons_def)

lemma ruleScore_nonneg: "0 \<le> ruleScore metadata sz platform"
  by (simp add: ruleScore_def points_def)

lemma ruleScore_le: "ruleScore metadata sz platform \<le> 105"
  by (simp add: ruleScore_def points_def)

lemma heuristicAudit_nonneg: "heuristicAudit h metadata sz platform = Inr (s, rs) \<Longrightarrow> 0 \<le> s"
  using ruleScore_nonneg [of metadata sz platform]
  by (simp add: heuristicAudit_rules split: if_splits)

text \<open>
  The tolerance is evaluated on doubles. A 1080 x 1812 image is at the exact distance
  1/10 from 16/9, so that in exact arithmetic no PayPal ratio is closer than 1/10; the
  rounded difference is below the double 0.1 and the size counts as standard. The same
  holds at 720 x 1208, and at 720 x 1488 and 1080 x 2232 for the ratio 19.5/9.
\<close>

lemma tolerance_in_double_arithmetic:
  "heuristicAudit idle_host None \<lparr>width = Fin 1080, height = Fin 1812\<rparr> ''PayPal'' = Inr (0, []) \<and>
   exactMismatch 1812 1080 ''PayPal'' \<and>
   heuristicAudit idle_host None \<lparr>width = Fin 720, height = Fin 1208\<rparr> ''PayPal'' = Inr (0, []) \<and>
   heuristicAudit idle_host None \<lparr>width = Fin 720, height = Fin 1488\<rparr> ''PhonePe'' = Inr (0, []) \<and>
   heuristicAudit idle_host None \<lparr>width = Fin 1080, height = Fin 2232\<rparr> ''PhonePe'' = Inr (0, [])"
  by (simp add: heuristicAudit_rules rule_eval editingToolRule_code geometryMismatch_code
      code_eval fl_eval exactMismatch_def exact_ratios_def)

text \<open>
  C1. On every input on which the heuristic audit completes, its score is the sum of the
  contributions of the five rules (40 for an editing tool named in \<open>software\<close>, 30 for an
  altered timestamp, 15 for a screenshot with camera data, nothing for coordinates, 20
  for a size that matches no accepted ratio of a registered platform) and its reasons are
  those of the rules that fire, in this order. The audit does not complete on every
  input: for a platform name that the registry object inherits from its prototype, such
  as \<open>toString\<close>, the lookup finds a value, the rule is not skipped and reading its ratios
  raises a TypeError, where the sum of the rules is 0; the same holds for a latitude
  without a longitude.
\<close>

theorem heuristic_score_is_sum_of_rules:
  "heuristicAudit h metadata sz platform =
     (if gpsHalfPresent metadata \<or> platform \<in> set Object_prototype_keys then Inl TypeError
      else Inr (ruleScore metadata sz platform, ruleReasons h metadata sz platform)) \<and>
   analyzeForensics idle_host image_mode None \<lparr>width = Fin 1080, height = Fin 2340\<rparr> ''IN''
     (Some ''toString'') None Throws = Inl TypeError \<and>
   map_of PLATFORM_TEMPLATES ''toString'' = None \<and>
   ruleScore None \<lparr>width = Fin 1080, height = Fin 2340\<rparr> ''toString'' = 0"
proof -
  have "heuristicAudit h metadata sz platform =
     (if gpsHalfPresent metadata \<or> platform \<in> set Object_prototype_keys then Inl TypeError
      else Inr (ruleScore metadata sz platform, ruleReasons h metadata sz platform))"
    by (simp add: heuristicAudit_def metadataAudit_rules aspectRatioAudit_rules inherited_iff
        ruleScore_def ruleReasons_def)
  moreover have "analyzeForensics idle_host image_mode None \<lparr>width = Fin 1080, height = Fin 2340\<rparr>
      ''IN'' (Some ''toString'') None Throws = Inl TypeError"
    by (simp add: analyzeForensics_def default_platform_def heuristicAudit_def metadataAudit_def
        aspectRatioAudit_def PLATFORM_TEMPLATES_get_def PLATFORM_TEMPLATES_def
        Object_prototype_keys_def Let_def)
  moreover have "map_of PLATFORM_TEMPLATES ''toString'' = None"
    by (simp add: PLATFORM_TEMPLATES_def)
  moreover have "ruleScore None \<lparr>width = Fin 1080, height = Fin 2340\<rparr> ''toString'' = 0"
    by (simp add: rule_eval editingToolRule_def geometryMismatch_def PLATFORM_TEMPLATES_def)
  ultimately show ?thesis
    by simp
qed

text \<open>
  All five rules fire (105 points); none fires, on a size within the tolerance of a
  Google Pay ratio and software that is no editing tool; a platform outside the registry
  is not scored, whatever the size.
\<close>

theorem heuristic_score_is_sum_of_rules_witness:
  "heuristicAudit idle_host
     (Some \<lparr>software = Some ''Adobe Photoshop CC'', isAlteredTimestamp = True, hasExif = True,
            isScreenshot = True, exif_make = Some ''Canon'', exif_model = None,
            gpsLatitude = Some (Fin (99 / 8)), gpsLongitude = Some (Fin (- 6321 / 64))\<rparr>)
     \<lparr>width = Fin 1080, height = Fin 1500\<rparr> ''Google Pay'' =
   Inr (105,
     [''Modification Signature: File processed via Adobe Photoshop CC.'',
      ''Epoch Discrepancy: Metadata suggests creation date was altered post-capture.'',
      ''Inconsistent Metadata: File claims to be a screenshot but contains camera lens data.'',
      ''Geolocation Marker Found: 12.38, -98.77'',
      ''Geometric Mismatch: Screenshot dimensions do not match the Google Pay standard.'']) \<and>
   heuristicAudit idle_host
     (Some \<lparr>software = Some ''Camera'', isAlteredTimestamp = False, hasExif = True,
            isScreenshot = False, exif_make = Some ''Canon'', exif_model = Some ''EOS'',
            gpsLatitude = None, gpsLongitude = None\<rparr>)
     \<lparr>width = Fin 1080, height = Fin 2340\<rparr> ''Google Pay'' = Inr (0, []) \<and>
   heuristicAudit idle_host None \<lparr>width = Fin 1080, height = Fin 1500\<rparr> ''General'' = Inr (0, [])"
proof -
  let ?a = "Some \<lparr>software = Some ''Adobe Photoshop CC'', isAlteredTimestamp = True, hasExif = True,
            isScreenshot = True, exif_make = Some ''Canon'', exif_model = None,
            gpsLatitude = Some (Fin (99 / 8)), gpsLongitude = Some (Fin (- 6321 / 64))\<rparr>"
  let ?b = "Some \<lparr>software = Some ''Camera'', isAlteredTimestamp = False, hasExif = True,
            isScreenshot = False, exif_make = Some ''Canon'', exif_model = Some ''EOS'',
            gpsLatitude = None, gpsLongitude = None\<rparr>"
  have a: "\<not> gpsHalfPresent ?a" and b: "\<not> gpsHalfPresent ?b" and c: "\<not> gpsHalfPresent None"
    by (simp_all add: gpsHalfPresent_def)
  have p: "''Google Pay'' \<notin> set Object_prototype_keys"
    and g: "''General'' \<notin> set Object_prototype_keys"
    by (simp_all add: Object_prototype_keys_def)
  have 1: "heuristicAudit idle_host ?a \<lparr>width = Fin 1080, height = Fin 1500\<rparr> ''Google Pay'' =
      Inr (ruleScore ?a \<lparr>width = Fin 1080, height = Fin 1500\<rparr> ''Google Pay'',
           ruleReasons idle_host ?a \<lparr>width = Fin 1080, height = Fin 1500\<rparr> ''Google Pay'')"
    using heuristic_score_is_sum_of_rules
      [of idle_host ?a "\<lparr>width = Fin 1080, height = Fin 1500\<rparr>" "''Google Pay''"] a p
    by simp
  have 2: "heuristicAudit idle_host ?b \<lparr>width = Fin 1080, height = Fin 2340\<rparr> ''Google Pay'' =
      Inr (ruleScore ?b \<lparr>width = Fin 1080, height = Fin 2340\<rparr> ''Google Pay'',
           ruleReasons idle_host ?b \<lparr>width = Fin 1080, height = Fin 2340\<rparr> ''Google Pay'')"
    using heuristic_score_is_sum_of_rules
      [of idle_host ?b "\<lparr>width = Fin 1080, height = Fin 2340\<rparr>" "''Google Pay''"] b p
    by simp
  have 3: "heuristicAudit idle_host None \<lparr>width = Fin 1080, height = Fin 1500\<rparr> ''General'' =
      Inr (ruleScore None \<lparr>width = Fin 1080, height = Fin 1500\<rparr> ''General'',
           ruleReasons idle_host None \<lparr>width = Fin 1080, height = Fin 1500\<rparr> ''General'')"
    using heuristic_score_is_sum_of_rules
      [of idle_host None "\<lparr>width = Fin 1080, height = Fin 1500\<rparr>" "''General''"] c g
    by simp
  show ?thesis
    unfolding 1 2 3
    by (simp add: rule_eval editingToolRule_code geometryMismatch_code code_eval fl_eval
        idle_host_def)
qed

subsection \<open>Numbers and values\<close>

lemma jsmax_Fin: "jsmax (Fin a) (Fin b) = Fin (max a b)"
  by (simp add: jsmax_def max_def)

lemma jsmin_Fin: "jsmin (Fin a) (Fin b) = Fin (min a b)"
  by (auto simp: jsmin_def min_def)

lemma jslt_classify:
  "(if jslt (Fin high) n then High else if jslt (Fin medium) n then Medium else Low) =
     classify high medium n"
  by (cases n) (simp_all add: classify_def)

lemma classify_min:
  "high < 100 \<Longrightarrow> medium \<le> high \<Longrightarrow>
     classify high medium (jsmin n (Fin 100)) = classify high medium n"
  by (cases n) (auto simp: classify_def jsmin_def)

lemma classify_iff:
  assumes "medium \<le> high"
  shows "(classify high medium (Fin s) = High \<longleftrightarrow> high < s) \<and>
         (classify high medium (Fin s) = Medium \<longleftrightarrow> medium < s \<and> s \<le> high) \<and>
         (classify high medium (Fin s) = Low \<longleftrightarrow> s \<le> medium)"
  using assms by (auto simp: classify_def)

lemma get_field: "v \<noteq> Null \<Longrightarrow> v \<noteq> Undefined \<Longrightarrow> get v k = Inr (field v k)"
  by (simp add: get_def)

lemma field_defined: "field v k \<noteq> Undefined \<Longrightarrow> v \<noteq> Null \<and> v \<noteq> Undefined"
  by (auto simp: field_def)

lemma spread_entries:
  "spread (or_else (field v k) (Arr [])) =
     (case entries v k of None \<Rightarrow> Inl TypeError | Some xs \<Rightarrow> Inr xs)"
  by (cases "field v k") (auto simp: or_else_def entries_def)

lemma truthy_string_iff: "truthy_string v \<longleftrightarrow> v \<noteq> None \<and> v \<noteq> Some []"
  by (cases v) (simp_all add: truthy_string_def)

subsection \<open>The two returns of the forensic scan\<close>

lemma consultedReply_Some:
  "consultedReply base64Image gw = Some v \<longleftrightarrow>
     gw = Responds v \<and> truthy_string base64Image \<and> v \<noteq> Null \<and> v \<noteq> Undefined"
  by (cases gw) (auto simp: consultedReply_def truthy_string_iff)

lemma consultedReply_None:
  "consultedReply base64Image gw = None \<longleftrightarrow>
     \<not> truthy_string base64Image \<or> gw = Throws \<or> gw = Responds Null \<or> gw = Responds Undefined"
  by (cases gw) (auto simp: consultedReply_def truthy_string_iff)

lemma mergeScore_eq:
  "v \<noteq> Null \<Longrightarrow> v \<noteq> Undefined \<Longrightarrow>
     mergeScore h current v =
       (case ToNumber h (if truthy (field v ''aiScore'') then field v ''aiScore'' else Num (Fin 0)) of
          Inl e \<Rightarrow> Inl e
        | Inr n \<Rightarrow> Inr (jsmax current n))"
  by (simp add: mergeScore_def get_field Math_max_def or_else_def)

lemma mergeScore_null: "v = Null \<or> v = Undefined \<Longrightarrow> mergeScore h current v = Inl TypeError"
  by (auto simp: mergeScore_def get_def)

lemma mergeScore_number:
  "field v ''aiScore'' = Num (Fin a) \<Longrightarrow> mergeScore h (Fin s) v = Inr (Fin (max s a))"
  using field_defined [of v "''aiScore''"]
  by (cases "a = 0") (simp_all add: mergeScore_eq jsmax_Fin)

text \<open>The \<open>try\<close> block in terms of what the reply contributes.\<close>

lemma visionTry_Throws: "visionTry h Throws vars = Inl vars"
  by (simp add: visionTry_def)

lemma visionTry_eq:
  assumes "truthy_string base64Image"
  shows "visionTry h gw (s, rs, an, lc) =
     (case aiScoreNumber h base64Image gw of
        None \<Rightarrow> Inl (s, rs, an, lc)
      | Some n \<Rightarrow>
          (case gw of
             Throws \<Rightarrow> Inl (s, rs, an, lc)
           | Responds v \<Rightarrow>
               (case entries v ''aiReasons'' of
                  None \<Rightarrow> Inl (jsmax s n, rs, an, lc)
                | Some xs \<Rightarrow>
                    (case entries v ''detectedAnomalies'' of
                       None \<Rightarrow> Inl (jsmax s n, rs @ xs, an, lc)
                     | Some ds \<Rightarrow>
                         Inr (visionResult
                               (jsmax s n, rs @ xs, an @ ds,
                                or_else (field v ''layoutStatus'') (Str ''Suspicious''))
                               v)))))"
proof (cases gw)
  case Throws
  then show ?thesis
    by (simp add: visionTry_def aiScoreNumber_def consultedReply_def)
next
  case (Responds v)
  show ?thesis
  proof (cases "v = Null \<or> v = Undefined")
    case True
    then show ?thesis
      using Responds
      by (auto simp: visionTry_def mergeScore_null aiScoreNumber_def consultedReply_def)
  next
    case False
    define w where
      "w = (if truthy (field v ''aiScore'') then field v ''aiScore'' else Num (Fin 0))"
    have c: "consultedReply base64Image (Responds v) = Some v"
      using False assms by (simp add: consultedReply_Some)
    have a: "aiScoreNumber h base64Image (Responds v) =
               (case ToNumber h w of Inl e \<Rightarrow> None | Inr n \<Rightarrow> Some n)"
      by (simp add: aiScoreNumber_def c w_def)
    have m: "mergeScore h s v =
               (case ToNumber h w of Inl e \<Rightarrow> Inl e | Inr n \<Rightarrow> Inr (jsmax s n))"
      using False by (simp add: mergeScore_eq w_def)
    show ?thesis
    proof (cases "ToNumber h w")
      case (Inl e)
      then show ?thesis
        unfolding Responds by (simp add: visionTry_def a m)
    next
      case (Inr n)
      then show ?thesis
        unfolding Responds
        by (simp add: visionTry_def a m spread_entries split: option.splits)
    qed
  qed
qed

lemma aiScoreNumber_Throws: "aiScoreNumber h base64Image Throws = None"
  by (simp add: aiScoreNumber_def consultedReply_def)

lemma pushedReasons_eq:
  "pushedReasons h base64Image gw =
     (case aiScoreNumber h base64Image gw of
        None \<Rightarrow> []
      | Some n \<Rightarrow>
          (case gw of
             Throws \<Rightarrow> []
           | Responds v \<Rightarrow> (case entries v ''aiReasons'' of None \<Rightarrow> [] | Some xs \<Rightarrow> xs)))"
  by (cases gw)
    (auto simp: pushedReasons_def aiScoreNumber_def consultedReply_def
      split: option.splits sum.splits)

lemma deepVisionAvailable_eq:
  "deepVisionAvailable h base64Image gw =
     (case aiScoreNumber h base64Image gw of
        None \<Rightarrow> False
      | Some n \<Rightarrow>
          (case gw of
             Throws \<Rightarrow> False
           | Responds v \<Rightarrow>
               entries v ''aiReasons'' \<noteq> None \<and> entries v ''detectedAnomalies'' \<noteq> None))"
  by (cases gw)
    (auto simp: deepVisionAvailable_def aiScoreNumber_def consultedReply_def
      split: option.splits sum.splits)

lemma aiScoreNumber_no_image: "\<not> truthy_string base64Image \<Longrightarrow> aiScoreNumber h base64Image gw = None"
  by (cases gw) (auto simp: aiScoreNumber_def consultedReply_def truthy_string_iff)

lemma analyzeForensics_unfold:
  assumes "heuristicAudit h metadata sz (default_platform platform_arg) = Inr (hs, rs)"
  shows "analyzeForensics h mode metadata sz country platform_arg base64Image gw =
     (if truthy_string base64Image then
        (case visionTry h gw (Fin (of_int hs), map Str rs, [], Str ''N/A'') of
           Inr result \<Rightarrow> Inr result
         | Inl vars \<Rightarrow> Inr (fallbackResult vars))
      else Inr (fallbackResult (Fin (of_int hs), map Str rs, [], Str ''N/A'')))"
  using assms by (simp add: analyzeForensics_def initial_locals_def Let_def)

lemma analyzeForensics_raises:
  "heuristicAudit h metadata sz (default_platform platform_arg) = Inl e \<Longrightarrow>
     analyzeForensics h mode metadata sz country platform_arg base64Image gw = Inl e"
  by (simp add: analyzeForensics_def Let_def)

text \<open>
  The local variables with which the scan reaches one of its two returns: the score and
  the reasons after whatever was merged from the reply.
\<close>

lemma analyzeForensics_fallback:
  assumes "heuristicAudit h metadata sz (default_platform platform_arg) = Inr (hs, rs)"
    and "\<not> deepVisionAvailable h base64Image gw"
  shows "analyzeForensics h mode metadata sz country platform_arg base64Image gw =
     Inr (fallbackResult
           ((case aiScoreNumber h base64Image gw of
               None \<Rightarrow> Fin (of_int hs) | Some n \<Rightarrow> jsmax (Fin (of_int hs)) n),
            map Str rs @ pushedReasons h base64Image gw, [], Str ''N/A''))"
proof (cases "truthy_string base64Image")
  case False
  then show ?thesis
    by (simp add: analyzeForensics_unfold [OF assms(1)] aiScoreNumber_no_image pushedReasons_eq)
next
  case True
  show ?thesis
    using assms(2)
    by (cases gw)
      (auto simp: analyzeForensics_unfold [OF assms(1)] True visionTry_eq [OF True]
        pushedReasons_eq deepVisionAvailable_eq aiScoreNumber_Throws split: option.splits)
qed

lemma analyzeForensics_vision:
  assumes "heuristicAudit h metadata sz (default_platform platform_arg) = Inr (hs, rs)"
    and "aiScoreNumber h base64Image (Responds v) = Some n"
    and "entries v ''aiReasons'' = Some xs"
    and "entries v ''detectedAnomalies'' = Some ds"
  shows "analyzeForensics h mode metadata sz country platform_arg base64Image (Responds v) =
     Inr (visionResult
           (jsmax (Fin (of_int hs)) n, map Str rs @ xs, ds,
            or_else (field v ''layoutStatus'') (Str ''Suspicious''))
           v)"
proof -
  have img: "truthy_string base64Image"
    using assms(2) aiScoreNumber_no_image [of base64Image h "Responds v"] by auto
  show ?thesis
    by (simp add: analyzeForensics_unfold [OF assms(1)] img visionTry_eq [OF img] assms(2-4))
qed

lemma deepVisionAvailable_iff:
  "deepVisionAvailable h base64Image gw \<longleftrightarrow>
     (\<exists>v n xs ds. gw = Responds v \<and> aiScoreNumber h base64Image gw = Some n \<and>
        entries v ''aiReasons'' = Some xs \<and> entries v ''detectedAnomalies'' = Some ds)"
  by (cases gw) (auto simp: deepVisionAvailable_eq aiScoreNumber_Throws split: option.splits)

subsection \<open>Sets in insertion order\<close>

lemma new_Set_snoc: "new_Set (xs @ [x]) = Set_add (new_Set xs) x"
  by (simp add: new_Set_def)

lemma set_new_Set: "set (new_Set xs) = set xs"
  by (induction xs rule: rev_induct) (auto simp: new_Set_snoc Set_add_def new_Set_def)

lemma first_occurrences_snoc:
  "first_occurrences (xs @ [x]) =
     first_occurrences xs @ (if x \<in> set xs then [] else [x])"
proof -
  have "filter (\<lambda>i. (xs @ [x]) ! i \<notin> set (take i (xs @ [x]))) [0..<length xs] =
        filter (\<lambda>i. xs ! i \<notin> set (take i xs)) [0..<length xs]"
    by (rule filter_cong) (auto simp: nth_append)
  moreover have "map (\<lambda>i. (xs @ [x]) ! i) (filter (\<lambda>i. xs ! i \<notin> set (take i xs)) [0..<length xs]) =
        map (\<lambda>i. xs ! i) (filter (\<lambda>i. xs ! i \<notin> set (take i xs)) [0..<length xs])"
    by (rule map_cong) (auto simp: nth_append)
  ultimately show ?thesis
    by (simp add: first_occurrences_def)
qed

lemma first_occurrences_Nil: "first_occurrences [] = []"
  by (simp add: first_occurrences_def)

lemma set_first_occurrences: "set (first_occurrences xs) = set xs"
  by (induction xs rule: rev_induct) (auto simp: first_occurrences_snoc first_occurrences_Nil)

lemma distinct_first_occurrences: "distinct (first_occurrences xs)"
  by (induction xs rule: rev_induct)
    (auto simp: first_occurrences_snoc set_first_occurrences first_occurrences_Nil)

lemma strings_of_append: "strings_of (xs @ ys) = strings_of xs @ strings_of ys"
  by (induction xs rule: strings_of.induct) simp_all

lemma strings_of_map_Str: "strings_of (map Str ss) = ss"
  by (induction ss) simp_all

lemma Str_in_set: "Str s \<in> set xs \<longleftrightarrow> s \<in> set (strings_of xs)"
  by (induction xs rule: strings_of.induct) auto

lemma strings_of_Set_add:
  "strings_of (Set_add members x) =
     strings_of members @
     (case x of Str s \<Rightarrow> (if s \<in> set (strings_of members) then [] else [s]) | _ \<Rightarrow> [])"
  by (cases x) (auto simp: Set_add_def strings_of_append Str_in_set)

text \<open>The strings of a Set are the strings added to it, each at its first occurrence.\<close>

lemma strings_of_new_Set: "strings_of (new_Set xs) = first_occurrences (strings_of xs)"
proof (induction xs rule: rev_induct)
  case Nil
  show ?case by (simp add: new_Set_def first_occurrences_Nil)
next
  case (snoc x xs)
  show ?case
    by (cases x)
      (simp_all add: new_Set_snoc strings_of_Set_add strings_of_append first_occurrences_snoc
        snoc.IH set_first_occurrences)
qed

lemma new_Set_strings: "new_Set (map Str ss) = map Str (first_occurrences ss)"
proof (induction ss rule: rev_induct)
  case Nil
  show ?case by (simp add: new_Set_def first_occurrences_Nil)
next
  case (snoc s ss)
  have "Str s \<in> set (map Str (first_occurrences ss)) \<longleftrightarrow> s \<in> set ss"
    by (auto simp: set_first_occurrences)
  then show ?case
    by (simp add: new_Set_snoc first_occurrences_snoc Set_add_def snoc.IH)
qed

text \<open>The fallback return on the state the heuristic audit leaves.\<close>

lemma fallbackResult_heuristic:
  "fallbackResult (Fin (of_int hs), map Str rs, [], Str ''N/A'') = heuristicOnly hs rs"
  by (simp add: fallbackResult_def heuristicOnly_def new_Set_strings jsmin_Fin min_def)

subsection \<open>The merged score\<close>

lemma aiScoreNumber_number:
  assumes "present base64Image" and "field v ''aiScore'' = Num (Fin a)"
  shows "aiScoreNumber h base64Image (Responds v) = Some (Fin a)"
proof -
  have "v \<noteq> Null \<and> v \<noteq> Undefined"
    using field_defined [of v "''aiScore''"] assms(2) by simp
  then have "consultedReply base64Image (Responds v) = Some v"
    using assms(1) by (simp add: consultedReply_def present_def)
  then show ?thesis
    by (cases "a = 0") (simp_all add: aiScoreNumber_def assms(2))
qed

text \<open>
  C2. When a deep-vision result is available (an image was supplied and the reply has a
  numeric \<open>aiScore\<close> and lists that can be merged), the score after the merge is the larger
  of the heuristic score and \<open>aiScore\<close>, not their sum and not their mean; the result
  is the one of the deep-vision return, its risk level read off that maximum and its
  \<open>score\<close> field that maximum, capped at 100.
\<close>

theorem deep_vision_score_is_max:
  assumes "heuristicAudit h metadata sz (default_platform platform_arg) = Inr (hs, rs)"
    and "present base64Image"
    and "field v ''aiScore'' = Num (Fin a)"
    and "entries v ''aiReasons'' = Some aiReasons"
    and "entries v ''detectedAnomalies'' = Some detected"
  shows "mergeScore h (Fin (of_int hs)) v = Inr (Fin (max (of_int hs) a)) \<and>
         analyzeForensics h mode metadata sz country platform_arg base64Image (Responds v) =
           Inr \<lparr>riskLevel = classify 70 35 (Fin (max (of_int hs) a)),
                score = Num (Fin (min (max (of_int hs) a) 100)),
                explanation =
                  (if truthy (field v ''aiExplanation'') then field v ''aiExplanation''
                   else Str ''Forensic vision audit complete.''),
                reasons = Arr (new_Set (map Str rs @ aiReasons)),
                advice = Arr [Str ''Cross-verify this Transaction ID in your banking app.'',
                              Str ''Check for blurred edges around the currency symbol.'',
                              Str ''Check if the fonts are consistent across the entire screen.''],
                layoutCheck =
                  (if truthy (field v ''layoutStatus'') then field v ''layoutStatus''
                   else Str ''Suspicious''),
                anomalies = Arr detected\<rparr>"
  using analyzeForensics_vision [OF assms(1) aiScoreNumber_number [OF assms(2,3)] assms(4,5)]
  by (simp add: mergeScore_number [OF assms(3)] visionResult_def jsmax_Fin jsmin_Fin jslt_classify
      or_else_def)

text \<open>
  A heuristic score of 60 (Photoshop and a size that is no PhonePe size) with \<open>aiScore\<close> 50
  gives 60, and with \<open>aiScore\<close> 80 it gives 80.
\<close>

theorem deep_vision_score_is_max_witness:
  "analyzeForensics idle_host image_mode
     (Some \<lparr>software = Some ''Photoshop'', isAlteredTimestamp = False, hasExif = False,
            isScreenshot = False, exif_make = None, exif_model = None,
            gpsLatitude = None, gpsLongitude = None\<rparr>)
     \<lparr>width = Fin 1080, height = Fin 1920\<rparr> ''IN'' (Some ''PhonePe'')
     (Some ''data:image/jpeg;base64,AAAA'')
     (Responds (Obj [(''aiScore'', Num (Fin 50)), (''aiReasons'', Arr [Str ''Font mismatch'']),
        (''aiExplanation'', Str ''Looks edited.''), (''layoutStatus'', Str ''Failed''),
        (''detectedAnomalies'', Arr [])])) =
   Inr \<lparr>riskLevel = Medium, score = Num (Fin 60), explanation = Str ''Looks edited.'',
        reasons = Arr [Str ''Modification Signature: File processed via Photoshop.'',
                       Str ''Geometric Mismatch: Screenshot dimensions do not match the PhonePe standard.'',
                       Str ''Font mismatch''],
        advice = Arr [Str ''Cross-verify this Transaction ID in your banking app.'',
                      Str ''Check for blurred edges around the currency symbol.'',
                      Str ''Check if the fonts are consistent across the entire screen.''],
        layoutCheck = Str ''Failed'', anomalies = Arr []\<rparr> \<and>
   analyzeForensics idle_host image_mode
     (Some \<lparr>software = Some ''Photoshop'', isAlteredTimestamp = False, hasExif = False,
            isScreenshot = False, exif_make = None, exif_model = None,
            gpsLatitude = None, gpsLongitude = None\<rparr>)
     \<lparr>width = Fin 1080, height = Fin 1920\<rparr> ''IN'' (Some ''PhonePe'')
     (Some ''data:image/jpeg;base64,AAAA'')
     (Responds (Obj [(''aiScore'', Num (Fin 80)), (''aiReasons'', Arr []),
        (''detectedAnomalies'', Arr [])])) =
   Inr \<lparr>riskLevel = High, score = Num (Fin 80),
        explanation = Str ''Forensic vision audit complete.'',
        reasons = Arr [Str ''Modification Signature: File processed via Photoshop.'',
                       Str ''Geometric Mismatch: Screenshot dimensions do not match the PhonePe standard.''],
        advice = Arr [Str ''Cross-verify this Transaction ID in your banking app.'',
                      Str ''Check for blurred edges around the currency symbol.'',
                      Str ''Check if the fonts are consistent across the entire screen.''],
        layoutCheck = Str ''Suspicious'', anomalies = Arr []\<rparr>"
proof -
  let ?md = "Some \<lparr>software = Some ''Photoshop'', isAlteredTimestamp = False, hasExif = False,
            isScreenshot = False, exif_make = None, exif_model = None,
            gpsLatitude = None, gpsLongitude = None\<rparr>"
  let ?img = "Some ''data:image/jpeg;base64,AAAA''"
  let ?v = "Obj [(''aiScore'', Num (Fin 50)), (''aiReasons'', Arr [Str ''Font mismatch'']),
        (''aiExplanation'', Str ''Looks edited.''), (''layoutStatus'', Str ''Failed''),
        (''detectedAnomalies'', Arr [])]"
  let ?w = "Obj [(''aiScore'', Num (Fin 80)), (''aiReasons'', Arr []),
        (''detectedAnomalies'', Arr [])]"
  have h: "heuristicAudit idle_host ?md \<lparr>width = Fin 1080, height = Fin 1920\<rparr>
             (default_platform (Some ''PhonePe'')) =
           Inr (60, [''Modification Signature: File processed via Photoshop.'',
                     ''Geometric Mismatch: Screenshot dimensions do not match the PhonePe standard.''])"
    by (simp add: heuristicAudit_rules default_platform_def rule_eval editingToolRule_code
        geometryMismatch_code code_eval fl_eval)
  have img: "present ?img"
    by (simp add: present_def)
  have v: "field ?v ''aiScore'' = Num (Fin 50)"
    "entries ?v ''aiReasons'' = Some [Str ''Font mismatch'']"
    "entries ?v ''detectedAnomalies'' = Some []"
    by (simp_all add: field_def entries_def)
  have w: "field ?w ''aiScore'' = Num (Fin 80)"
    "entries ?w ''aiReasons'' = Some []"
    "entries ?w ''detectedAnomalies'' = Some []"
    by (simp_all add: field_def entries_def)
  show ?thesis
    using deep_vision_score_is_max [OF h img v, of image_mode "''IN''"]
      deep_vision_score_is_max [OF h img w, of image_mode "''IN''"]
    by (simp add: field_def classify_def new_Set_def Set_add_def)
qed

subsection \<open>Risk levels\<close>

lemma riskTernary_eq:
  "riskTernary h v high medium = map_sum id (classify high medium) (ToNumber h v)"
proof (cases "ToNumber h v")
  case (Inl e)
  then show ?thesis by (simp add: riskTernary_def js_gt_def)
next
  case (Inr n)
  then show ?thesis
    by (cases n) (simp_all add: riskTernary_def js_gt_def classify_def)
qed

lemma classify_zero: "classify 70 35 (Fin 0) = Low"
  by (simp add: classify_def)

lemma analyzeText_try_eq:
  "analyzeText_try h gw =
     (case gw of
        Throws \<Rightarrow> Inl GatewayError
      | Responds v \<Rightarrow>
          (if v = Null \<or> v = Undefined then Inl TypeError
           else
             (case ToNumber h (if truthy (field v ''score'') then field v ''score'' else Num (Fin 0)) of
                Inl e \<Rightarrow> Inl e
              | Inr n \<Rightarrow>
                  Inr \<lparr>riskLevel = classify 70 35 n,
                       score = Num (jsmin n (Fin 100)),
                       explanation = field v ''explanation'',
                       reasons = field v ''reasons'',
                       advice = field v ''advice'',
                       layoutCheck = Undefined, anomalies = Undefined\<rparr>)))"
  by (cases gw)
    (auto simp: analyzeText_try_def get_def riskTernary_eq Math_min_def or_else_def Let_def
      split: sum.splits)

lemma analyzeLink_try_eq:
  "analyzeLink_try h url gw =
     (case gw of
        Throws \<Rightarrow> Inl GatewayError
      | Responds v \<Rightarrow>
          (if v = Null \<or> v = Undefined then Inl TypeError
           else
             (case ToNumber h (if truthy (field v ''score'') then field v ''score'' else Num (Fin 0)) of
                Inl e \<Rightarrow> Inl e
              | Inr n \<Rightarrow>
                  Inr \<lparr>riskLevel = classify 70 35 n,
                       score = (if truthy (field v ''score'') then field v ''score'' else Num (Fin 0)),
                       explanation = Str (''Domain audit complete for '' @ url @ ''.''),
                       reasons = field v ''reasons'',
                       advice = Arr [Str ''Check for subtle misspellings in the URL.''],
                       layoutCheck = Undefined, anomalies = Undefined\<rparr>)))"
  by (cases gw)
    (auto simp: analyzeLink_try_def get_def riskTernary_eq or_else_def Let_def
      split: sum.splits)

lemma riskLevel_analyzeText:
  "map_option (classify 70 35) (numeric (score (analyzeText h text country gw))) =
     Some (riskLevel (analyzeText h text country gw))"
  by (cases gw)
    (auto simp: analyzeText_def analyzeText_try_eq numeric_def classify_min classify_zero
      split: sum.splits)

lemma riskLevel_analyzeLink:
  "map_sum id (classify 70 35) (ToNumber h (score (analyzeLink h url country gw))) =
     Inr (riskLevel (analyzeLink h url country gw))"
  by (cases gw)
    (auto simp: analyzeLink_def analyzeLink_try_eq classify_zero split: sum.splits)

lemma fallbackResult_fields:
  "riskLevel (fallbackResult (s, rs, an, lc)) = classify 65 30 s"
  "score (fallbackResult (s, rs, an, lc)) = Num (jsmin s (Fin 100))"
  "reasons (fallbackResult (s, rs, an, lc)) = Arr (new_Set rs)"
  "anomalies (fallbackResult (s, rs, an, lc)) = Arr an"
  by (simp_all add: fallbackResult_def Let_def jslt_classify)

lemma visionResult_fields:
  "riskLevel (visionResult (s, rs, an, lc) v) = classify 70 35 s"
  "score (visionResult (s, rs, an, lc) v) = Num (jsmin s (Fin 100))"
  "reasons (visionResult (s, rs, an, lc) v) = Arr (new_Set rs)"
  "anomalies (visionResult (s, rs, an, lc) v) = Arr an"
  "layoutCheck (visionResult (s, rs, an, lc) v) = lc"
  by (simp_all add: visionResult_def Let_def jslt_classify)

lemma riskLevel_analyzeForensics:
  assumes "analyzeForensics h mode metadata sz country platform_arg base64Image gw = Inr r"
  shows "map_option
           (if deepVisionAvailable h base64Image gw then classify 70 35 else classify 65 30)
           (numeric (score r)) = Some (riskLevel r)"
proof (cases "heuristicAudit h metadata sz (default_platform platform_arg)")
  case (Inl e)
  then show ?thesis
    using assms by (simp add: analyzeForensics_raises)
next
  case (Inr st)
  then have st: "heuristicAudit h metadata sz (default_platform platform_arg) = Inr (fst st, snd st)"
    by simp
  show ?thesis
  proof (cases "deepVisionAvailable h base64Image gw")
    case False
    then show ?thesis
      using assms analyzeForensics_fallback [OF st False, of mode country]
      by (auto simp: fallbackResult_fields numeric_def classify_min)
  next
    case True
    then obtain v n xs ds where "gw = Responds v" "aiScoreNumber h base64Image gw = Some n"
      "entries v ''aiReasons'' = Some xs" "entries v ''detectedAnomalies'' = Some ds"
      by (auto simp: deepVisionAvailable_iff)
    then show ?thesis
      using assms True analyzeForensics_vision [OF st, of base64Image v n xs ds mode country]
      by (auto simp: visionResult_fields numeric_def classify_min)
  qed
qed

text \<open>
  C3. The risk level follows from the returned score by one of two threshold tables. For
  the text scan, the link scan and the forensic scan with a deep-vision result: High iff
  the score is above 70, Medium iff it is above 35 and at most 70, Low otherwise. For the
  forensic scan without a deep-vision result (the fallback return): High iff above 65,
  Medium iff above 30 and at most 65, Low otherwise. The two tables differ: a score of 70
  is Medium in the first and High in the second. The score of the text scan and of the
  forensic scan is a number; the link scan returns the score as the reply has it and
  classifies the number it stands for.
\<close>

theorem risk_level_thresholds:
  "map_option (classify 70 35) (numeric (score (analyzeText h text country gw))) =
     Some (riskLevel (analyzeText h text country gw)) \<and>
   map_sum id (classify 70 35) (ToNumber h (score (analyzeLink h url country gw))) =
     Inr (riskLevel (analyzeLink h url country gw)) \<and>
   (analyzeForensics h mode metadata sz country platform_arg base64Image gw = Inr r \<longrightarrow>
      map_option
        (if deepVisionAvailable h base64Image gw then classify 70 35 else classify 65 30)
        (numeric (score r)) = Some (riskLevel r)) \<and>
   (classify 70 35 (Fin s) = High \<longleftrightarrow> 70 < s) \<and>
   (classify 70 35 (Fin s) = Medium \<longleftrightarrow> 35 < s \<and> s \<le> 70) \<and>
   (classify 70 35 (Fin s) = Low \<longleftrightarrow> s \<le> 35) \<and>
   (classify 65 30 (Fin s) = High \<longleftrightarrow> 65 < s) \<and>
   (classify 65 30 (Fin s) = Medium \<longleftrightarrow> 30 < s \<and> s \<le> 65) \<and>
   (classify 65 30 (Fin s) = Low \<longleftrightarrow> s \<le> 30) \<and>
   classify 70 35 (Fin 70) \<noteq> classify 65 30 (Fin 70)"
  using classify_iff [of 35 70 s] classify_iff [of 30 65 s] riskLevel_analyzeForensics
  by (simp add: riskLevel_analyzeText riskLevel_analyzeLink) (simp add: classify_def)

text \<open>
  A heuristic score of 70 (Canva and an altered timestamp): High without an image, by the
  table of the fallback return, and Medium with a reply whose \<open>aiScore\<close> is 10, by the
  table of the deep-vision return.
\<close>

theorem risk_level_thresholds_witness:
  "analyzeForensics idle_host image_mode
     (Some \<lparr>software = Some ''Canva'', isAlteredTimestamp = True, hasExif = False,
            isScreenshot = False, exif_make = None, exif_model = None,
            gpsLatitude = None, gpsLongitude = None\<rparr>)
     \<lparr>width = Fin 1080, height = Fin 2340\<rparr> ''IN'' (Some ''Paytm'') None Throws =
   Inr \<lparr>riskLevel = High, score = Num (Fin 70),
        explanation = Str ''Basic heuristic forensic audit complete.'',
        reasons = Arr [Str ''Modification Signature: File processed via Canva.'',
                       Str ''Epoch Discrepancy: Metadata suggests creation date was altered post-capture.''],
        advice = Arr [Str ''Verify the transaction manually.'', Str ''Check for editing artifacts.''],
        layoutCheck = Str ''Failed'', anomalies = Arr []\<rparr> \<and>
   classify 65 30 (Fin 70) = High \<and>
   analyzeForensics idle_host image_mode
     (Some \<lparr>software = Some ''Canva'', isAlteredTimestamp = True, hasExif = False,
            isScreenshot = False, exif_make = None, exif_model = None,
            gpsLatitude = None, gpsLongitude = None\<rparr>)
     \<lparr>width = Fin 1080, height = Fin 2340\<rparr> ''IN'' (Some ''Paytm'')
     (Some ''data:image/jpeg;base64,AAAA'') (Responds (Obj [(''aiScore'', Num (Fin 10))])) =
   Inr \<lparr>riskLevel = Medium, score = Num (Fin 70),
        explanation = Str ''Forensic vision audit complete.'',
        reasons = Arr [Str ''Modification Signature: File processed via Canva.'',
                       Str ''Epoch Discrepancy: Metadata suggests creation date was altered post-capture.''],
        advice = Arr [Str ''Cross-verify this Transaction ID in your banking app.'',
                      Str ''Check for blurred edges around the currency symbol.'',
                      Str ''Check if the fonts are consistent across the entire screen.''],
        layoutCheck = Str ''Suspicious'', anomalies = Arr []\<rparr> \<and>
   classify 70 35 (Fin 70) = Medium"
proof -
  let ?md = "Some \<lparr>software = Some ''Canva'', isAlteredTimestamp = True, hasExif = False,
            isScreenshot = False, exif_make = None, exif_model = None,
            gpsLatitude = None, gpsLongitude = None\<rparr>"
  let ?sz = "\<lparr>width = Fin 1080, height = Fin 2340\<rparr>"
  let ?img = "Some ''data:image/jpeg;base64,AAAA''"
  let ?v = "Obj [(''aiScore'', Num (Fin 10))]"
  let ?r = "\<lparr>riskLevel = High, score = Num (Fin 70),
        explanation = Str ''Basic heuristic forensic audit complete.'',
        reasons = Arr [Str ''Modification Signature: File processed via Canva.'',
                       Str ''Epoch Discrepancy: Metadata suggests creation date was altered post-capture.''],
        advice = Arr [Str ''Verify the transaction manually.'', Str ''Check for editing artifacts.''],
        layoutCheck = Str ''Failed'', anomalies = Arr []\<rparr>"
  let ?q = "\<lparr>riskLevel = Medium, score = Num (Fin 70),
        explanation = Str ''Forensic vision audit complete.'',
        reasons = Arr [Str ''Modification Signature: File processed via Canva.'',
                       Str ''Epoch Discrepancy: Metadata suggests creation date was altered post-capture.''],
        advice = Arr [Str ''Cross-verify this Transaction ID in your banking app.'',
                      Str ''Check for blurred edges around the currency symbol.'',
                      Str ''Check if the fonts are consistent across the entire screen.''],
        layoutCheck = Str ''Suspicious'', anomalies = Arr []\<rparr>"
  have h: "heuristicAudit idle_host ?md ?sz (default_platform (Some ''Paytm'')) =
           Inr (70, [''Modification Signature: File processed via Canva.'',
                     ''Epoch Discrepancy: Metadata suggests creation date was altered post-capture.''])"
    by (simp add: heuristicAudit_rules default_platform_def rule_eval editingToolRule_code
        geometryMismatch_code code_eval fl_eval)
  have no: "\<not> deepVisionAvailable idle_host None Throws"
    by (simp add: deepVisionAvailable_eq aiScoreNumber_Throws)
  have a: "aiScoreNumber idle_host ?img (Responds ?v) = Some (Fin 10)"
    by (simp add: aiScoreNumber_def consultedReply_def field_def)
  have e: "entries ?v ''aiReasons'' = Some []" "entries ?v ''detectedAnomalies'' = Some []"
    by (simp_all add: entries_def field_def)
  have yes: "deepVisionAvailable idle_host ?img (Responds ?v)"
    by (simp add: deepVisionAvailable_eq a e)
  have run1: "analyzeForensics idle_host image_mode ?md ?sz ''IN'' (Some ''Paytm'') None Throws =
                Inr ?r"
    by (simp add: analyzeForensics_fallback [OF h no] aiScoreNumber_Throws pushedReasons_eq
        fallbackResult_def jsmin_def new_Set_def Set_add_def Let_def)
  have run2: "analyzeForensics idle_host image_mode ?md ?sz ''IN'' (Some ''Paytm'') ?img
                (Responds ?v) = Inr ?q"
    by (simp add: analyzeForensics_vision [OF h a e] visionResult_def jsmax_Fin jsmin_Fin
        new_Set_def Set_add_def or_else_def field_def)
  from risk_level_thresholds [where h = idle_host and mode = image_mode and metadata = ?md
      and sz = ?sz and country = "''IN''" and platform_arg = "Some ''Paytm''"
      and base64Image = None and gw = Throws and r = ?r]
    risk_level_thresholds [where h = idle_host and mode = image_mode and metadata = ?md
      and sz = ?sz and country = "''IN''" and platform_arg = "Some ''Paytm''"
      and base64Image = ?img and gw = "Responds ?v" and r = ?q]
    run1 run2 no yes
  show ?thesis
    by (simp add: numeric_def)
qed

subsection \<open>The fallback return\<close>

text \<open>
  Without an image, with a gateway call that throws or rejects, with the reply \<open>null\<close> and
  with an \<open>aiScore\<close> that cannot be converted, nothing has been merged when the fallback is
  reached: the result is the heuristic-only fallback result.
\<close>

lemma heuristic_only_fallback:
  assumes "heuristicAudit h metadata sz (default_platform platform_arg) = Inr (hs, rs)"
    and "aiScoreNumber h base64Image gw = None"
  shows "analyzeForensics h mode metadata sz country platform_arg base64Image gw =
           Inr (heuristicOnly hs rs)"
proof -
  have "\<not> deepVisionAvailable h base64Image gw"
    by (simp add: deepVisionAvailable_eq assms(2))
  from analyzeForensics_fallback [OF assms(1) this]
  show ?thesis
    by (simp add: assms(2) pushedReasons_eq fallbackResult_heuristic)
qed

lemma heuristic_only_without_image:
  assumes "heuristicAudit h metadata sz (default_platform platform_arg) = Inr (hs, rs)"
    and "base64Image = None \<or> base64Image = Some [] \<or> gw = Throws \<or> gw = Responds Null"
  shows "analyzeForensics h mode metadata sz country platform_arg base64Image gw =
           Inr (heuristicOnly hs rs)"
proof -
  have "consultedReply base64Image gw = None"
    using assms(2) by (auto simp: consultedReply_def split: gateway.splits)
  then have "aiScoreNumber h base64Image gw = None"
    by (simp add: aiScoreNumber_def)
  then show ?thesis
    by (rule heuristic_only_fallback [OF assms(1)])
qed

text \<open>
  In every fallback result the layout verdict and the risk level are read off the score
  with which the fallback is reached (0 stands for a score that is no number), and there
  are no anomalies. That score is the heuristic score only if nothing was merged before
  the \<open>catch\<close>.
\<close>

lemma fallback_layout_and_anomalies:
  assumes "heuristicAudit h metadata sz (default_platform platform_arg) = Inr (hs, rs)"
    and "\<not> deepVisionAvailable h base64Image gw"
    and "analyzeForensics h mode metadata sz country platform_arg base64Image gw = Inr r"
    and "s = (case aiScoreNumber h base64Image gw of
                None \<Rightarrow> Fin (of_int hs) | Some n \<Rightarrow> jsmax (Fin (of_int hs)) n)"
  shows "score r = Num (jsmin s (Fin 100)) \<and>
         riskLevel r = classify 65 30 s \<and>
         layoutCheck r =
           Str (if jslt (Fin 60) s then ''Failed''
                else if jslt (Fin 25) s then ''Suspicious'' else ''Passed'') \<and>
         anomalies r = Arr []"
  using analyzeForensics_fallback [OF assms(1,2), of mode country] assms(3,4)
  by (auto simp: fallbackResult_def Let_def jslt_classify)

text \<open>
  C4. The fallback return does not always carry the heuristic score alone. With a
  heuristic score of 30 (an altered timestamp), an image and the reply
  \<open>{"aiScore": 90, "aiReasons": 5}\<close>, the score is merged first; spreading \<open>aiReasons\<close>
  then raises, the \<open>catch\<close> is reached and the fallback returns 90, High and Failed. The
  heuristic-only fallback result for the same audit is 30, Low and Suspicious, which is
  what the scan returns when the gateway call itself fails.
\<close>

theorem fallback_carries_merged_score:
  "analyzeForensics idle_host image_mode
     (Some \<lparr>software = None, isAlteredTimestamp = True, hasExif = False,
            isScreenshot = False, exif_make = None, exif_model = None,
            gpsLatitude = None, gpsLongitude = None\<rparr>)
     \<lparr>width = Fin 1080, height = Fin 2340\<rparr> ''IN'' (Some ''Google Pay'')
     (Some ''data:image/jpeg;base64,AAAA'')
     (Responds (Obj [(''aiScore'', Num (Fin 90)), (''aiReasons'', Num (Fin 5))])) =
   Inr \<lparr>riskLevel = High, score = Num (Fin 90),
        explanation = Str ''Basic heuristic forensic audit complete.'',
        reasons = Arr [Str ''Epoch Discrepancy: Metadata suggests creation date was altered post-capture.''],
        advice = Arr [Str ''Verify the transaction manually.'', Str ''Check for editing artifacts.''],
        layoutCheck = Str ''Failed'', anomalies = Arr []\<rparr> \<and>
   analyzeForensics idle_host image_mode
     (Some \<lparr>software = None, isAlteredTimestamp = True, hasExif = False,
            isScreenshot = False, exif_make = None, exif_model = None,
            gpsLatitude = None, gpsLongitude = None\<rparr>)
     \<lparr>width = Fin 1080, height = Fin 2340\<rparr> ''IN'' (Some ''Google Pay'')
     (Some ''data:image/jpeg;base64,AAAA'') Throws =
   Inr \<lparr>riskLevel = Low, score = Num (Fin 30),
        explanation = Str ''Basic heuristic forensic audit complete.'',
        reasons = Arr [Str ''Epoch Discrepancy: Metadata suggests creation date was altered post-capture.''],
        advice = Arr [Str ''Verify the transaction manually.'', Str ''Check for editing artifacts.''],
        layoutCheck = Str ''Suspicious'', anomalies = Arr []\<rparr>"
proof -
  let ?md = "Some \<lparr>software = None, isAlteredTimestamp = True, hasExif = False,
            isScreenshot = False, exif_make = None, exif_model = None,
            gpsLatitude = None, gpsLongitude = None\<rparr>"
  let ?sz = "\<lparr>width = Fin 1080, height = Fin 2340\<rparr>"
  have h: "heuristicAudit idle_host ?md ?sz ''Google Pay'' =
           Inr (30, [''Epoch Discrepancy: Metadata suggests creation date was altered post-capture.''])"
    by (simp add: heuristicAudit_rules rule_eval editingToolRule_code geometryMismatch_code
        code_eval fl_eval)
  show ?thesis
    by (simp add: analyzeForensics_def default_platform_def h truthy_string_def initial_locals_def
        visionTry_def mergeScore_def get_def Math_max_def or_else_def field_def jsmax_def
        jsmin_def fallbackResult_def new_Set_def Set_add_def Let_def)
qed

subsection \<open>The text and link scans\<close>

lemma replyNumber_Throws: "replyNumber h Throws k = None"
  by (simp add: replyNumber_def)

lemma replyNumber_number:
  "field v k = Num (Fin a) \<Longrightarrow> replyNumber h (Responds v) k = Some (Fin a)"
  using field_defined [of v k]
  by (cases "a = 0") (simp_all add: replyNumber_def)

lemma replyNumber_missing:
  "field v k = Undefined \<Longrightarrow> v \<noteq> Null \<Longrightarrow> v \<noteq> Undefined \<Longrightarrow>
     replyNumber h (Responds v) k = Some (Fin 0)"
  by (simp add: replyNumber_def)

lemma analyzeText_failed:
  assumes "\<not> trim_is_empty text" and "replyNumber h gw ''score'' = None"
  shows "analyzeText h text country gw =
     \<lparr>riskLevel = Low, score = Num (Fin 0), explanation = Str ''Analysis failed.'',
      reasons = Arr [], advice = Arr [], layoutCheck = Undefined, anomalies = Undefined\<rparr>"
  using assms
  by (cases gw)
    (auto simp: analyzeText_def analyzeText_try_eq replyNumber_def split: sum.splits if_splits)

lemma analyzeText_replied:
  assumes "\<not> trim_is_empty text" and "replyNumber h (Responds v) ''score'' = Some n"
  shows "analyzeText h text country (Responds v) =
     \<lparr>riskLevel = classify 70 35 n, score = Num (jsmin n (Fin 100)),
      explanation = field v ''explanation'', reasons = field v ''reasons'',
      advice = field v ''advice'', layoutCheck = Undefined, anomalies = Undefined\<rparr>"
  using assms
  by (auto simp: analyzeText_def analyzeText_try_eq replyNumber_def split: sum.splits if_splits)

lemma analyzeLink_failed:
  assumes "replyNumber h gw ''score'' = None"
  shows "analyzeLink h url country gw =
     \<lparr>riskLevel = Low, score = Num (Fin 0), explanation = Str ''Link analysis failed.'',
      reasons = Arr [], advice = Arr [], layoutCheck = Undefined, anomalies = Undefined\<rparr>"
  using assms
  by (cases gw)
    (auto simp: analyzeLink_def analyzeLink_try_eq replyNumber_def split: sum.splits if_splits)

lemma analyzeLink_replied:
  assumes "replyNumber h (Responds v) ''score'' = Some n"
  shows "analyzeLink h url country (Responds v) =
     \<lparr>riskLevel = classify 70 35 n,
      score = (if truthy (field v ''score'') then field v ''score'' else Num (Fin 0)),
      explanation = Str (''Domain audit complete for '' @ url @ ''.''),
      reasons = field v ''reasons'',
      advice = Arr [Str ''Check for subtle misspellings in the URL.''],
      layoutCheck = Undefined, anomalies = Undefined\<rparr>"
  using assms
  by (auto simp: analyzeLink_def analyzeLink_try_eq replyNumber_def split: sum.splits if_splits)

subsection \<open>The range of the score\<close>

text \<open>
  The score of the forensic scan is a number between 0 and 100, or \<open>NaN\<close>; the score of the
  text scan is a number that is at most 100, or \<open>NaN\<close>.
\<close>

lemma analyzeForensics_score:
  assumes "heuristicAudit h metadata sz (default_platform platform_arg) = Inr (hs, rs)"
    and "analyzeForensics h mode metadata sz country platform_arg base64Image gw = Inr r"
  shows "score r =
           Num (jsmin (case aiScoreNumber h base64Image gw of
                         None \<Rightarrow> Fin (of_int hs) | Some n \<Rightarrow> jsmax (Fin (of_int hs)) n)
                  (Fin 100))"
proof (cases "deepVisionAvailable h base64Image gw")
  case False
  then show ?thesis
    using assms(2) analyzeForensics_fallback [OF assms(1) False, of mode country]
    by (auto simp: fallbackResult_fields)
next
  case True
  then obtain v n xs ds where "gw = Responds v" "aiScoreNumber h base64Image gw = Some n"
    "entries v ''aiReasons'' = Some xs" "entries v ''detectedAnomalies'' = Some ds"
    by (auto simp: deepVisionAvailable_iff)
  then show ?thesis
    using assms(2) analyzeForensics_vision [OF assms(1), of base64Image v n xs ds mode country]
    by (auto simp: visionResult_fields)
qed

lemma merged_score_range:
  assumes "0 \<le> hs" and "n \<noteq> NaN"
  shows "at_least (jsmin (jsmax (Fin hs) n) (Fin 100)) (min hs 100) \<and>
         \<not> jslt (Fin 100) (jsmin (jsmax (Fin hs) n) (Fin 100))"
  using assms by (cases n) (auto simp: jsmax_def jsmin_def at_least_def)

lemma analyzeForensics_score_range:
  assumes "analyzeForensics h mode metadata sz country platform_arg base64Image gw = Inr r"
  shows "\<exists>n. score r = Num n \<and> (n = NaN \<or> at_least n 0 \<and> \<not> jslt (Fin 100) n)"
proof (cases "heuristicAudit h metadata sz (default_platform platform_arg)")
  case (Inl e)
  then show ?thesis
    using assms by (simp add: analyzeForensics_raises)
next
  case (Inr st)
  then have st: "heuristicAudit h metadata sz (default_platform platform_arg) = Inr (fst st, snd st)"
    by simp
  have nn: "0 \<le> (of_int (fst st) :: rat)"
    using heuristicAudit_nonneg [OF st] by simp
  show ?thesis
  proof (cases "aiScoreNumber h base64Image gw")
    case None
    then show ?thesis
      using analyzeForensics_score [OF st assms] nn
      by (auto simp: jsmin_def at_least_def)
  next
    case (Some n)
    show ?thesis
    proof (cases "n = NaN")
      case True
      then show ?thesis
        using analyzeForensics_score [OF st assms] Some by (simp add: jsmax_def jsmin_def)
    next
      case False
      from merged_score_range [OF nn False]
      have "at_least (jsmin (jsmax (Fin (of_int (fst st))) n) (Fin 100)) 0"
        using nn by (cases "jsmin (jsmax (Fin (of_int (fst st))) n) (Fin 100)")
          (auto simp: at_least_def)
      then show ?thesis
        using analyzeForensics_score [OF st assms] Some merged_score_range [OF nn False]
        by auto
    qed
  qed
qed

text \<open>
  C5. The score is not within 0 and 100 on every path. The link scan returns the gateway's
  score as it came, with no cap: a reply with score 150 gives a result with score 150.
  The text scan caps the score at 100 and has no lower bound: a reply with score -5 gives
  a result with score -5.
\<close>

theorem analyzeLink_score_not_clamped:
  "score (analyzeLink idle_host ''http://example.com'' ''IN''
     (Responds (Obj [(''score'', Num (Fin 150)), (''reasons'', Arr [])]))) = Num (Fin 150) \<and>
   score (analyzeText idle_host ''You won a prize'' ''IN''
     (Responds (Obj [(''score'', Num (Fin (- 5))), (''explanation'', Str ''ok''),
        (''reasons'', Arr []), (''advice'', Arr [])]))) = Num (Fin (- 5))"
  by (simp add: analyzeLink_def analyzeLink_try_def analyzeText_def analyzeText_try_def get_def
      riskTernary_def js_gt_def Math_min_def or_else_def field_def jsmin_def trim_is_empty_def
      js_whitespace_def Let_def)

subsection \<open>Gateway failures\<close>

text \<open>
  C6, as stated, fails on the link path: the explanation of its degraded result is not
  \<open>"Analysis failed."\<close>.
\<close>

theorem link_failure_explanation_differs:
  "explanation (analyzeLink idle_host ''http://example.com'' ''IN'' Throws) =
     Str ''Link analysis failed.'' \<and>
   Str ''Link analysis failed.'' \<noteq> Str ''Analysis failed.''"
  by (simp add: analyzeLink_def analyzeLink_try_def)

text \<open>
  C6, amended. A gateway failure never reaches the caller. The text scan (of a message
  that is not blank, the only kind for which the gateway is called) returns the fixed
  result Low, 0, \<open>"Analysis failed."\<close>, no reasons, no advice. The link scan returns the same
  fixed result with the explanation \<open>"Link analysis failed."\<close>. The forensic scan returns
  what it returns without an image: the heuristic-only fallback result whenever the
  heuristic audit itself completes. Whatever the gateway does, the forensic scan raises
  an error only if the heuristic audit, which runs before the gateway is called, raises it.
\<close>

theorem gateway_failure_is_absorbed:
  "(\<not> trim_is_empty text \<longrightarrow>
      analyzeText h text country Throws =
        \<lparr>riskLevel = Low, score = Num (Fin 0), explanation = Str ''Analysis failed.'',
         reasons = Arr [], advice = Arr [], layoutCheck = Undefined, anomalies = Undefined\<rparr>) \<and>
   analyzeLink h url country Throws =
     \<lparr>riskLevel = Low, score = Num (Fin 0), explanation = Str ''Link analysis failed.'',
      reasons = Arr [], advice = Arr [], layoutCheck = Undefined, anomalies = Undefined\<rparr> \<and>
   analyzeForensics h mode metadata sz country platform_arg base64Image Throws =
     analyzeForensics h mode metadata sz country platform_arg None gw \<and>
   (heuristicAudit h metadata sz (default_platform platform_arg) = Inr (hs, rs) \<longrightarrow>
      analyzeForensics h mode metadata sz country platform_arg base64Image Throws =
        Inr (heuristicOnly hs rs)) \<and>
   (isl (analyzeForensics h mode metadata sz country platform_arg base64Image gw) \<longleftrightarrow>
      isl (heuristicAudit h metadata sz (default_platform platform_arg)))"
proof -
  have forensic: "analyzeForensics h mode metadata sz country platform_arg base64Image Throws =
      analyzeForensics h mode metadata sz country platform_arg None gw"
  proof (cases "heuristicAudit h metadata sz (default_platform platform_arg)")
    case (Inl e)
    then show ?thesis by (simp add: analyzeForensics_raises)
  next
    case (Inr st)
    then have st: "heuristicAudit h metadata sz (default_platform platform_arg) =
        Inr (fst st, snd st)"
      by simp
    show ?thesis
      by (simp add: heuristic_only_without_image [OF st])
  qed
  have raises: "isl (analyzeForensics h mode metadata sz country platform_arg base64Image gw) \<longleftrightarrow>
      isl (heuristicAudit h metadata sz (default_platform platform_arg))"
    by (auto simp: analyzeForensics_def Let_def split: sum.splits)
  show ?thesis
    using forensic raises
    by (simp add: analyzeText_failed analyzeLink_failed replyNumber_Throws
        heuristic_only_without_image)
qed

text \<open>
  A message, and a screenshot with an altered timestamp, while the gateway is down.
\<close>

theorem gateway_failure_is_absorbed_witness:
  "analyzeText idle_host ''You won a prize'' ''IN'' Throws =
     \<lparr>riskLevel = Low, score = Num (Fin 0), explanation = Str ''Analysis failed.'',
      reasons = Arr [], advice = Arr [], layoutCheck = Undefined, anomalies = Undefined\<rparr> \<and>
   analyzeForensics idle_host image_mode
     (Some \<lparr>software = None, isAlteredTimestamp = True, hasExif = False,
            isScreenshot = False, exif_make = None, exif_model = None,
            gpsLatitude = None, gpsLongitude = None\<rparr>)
     \<lparr>width = Fin 1080, height = Fin 2340\<rparr> ''IN'' (Some ''Google Pay'')
     (Some ''data:image/jpeg;base64,AAAA'') Throws =
   Inr \<lparr>riskLevel = Low, score = Num (Fin 30),
        explanation = Str ''Basic heuristic forensic audit complete.'',
        reasons = Arr [Str ''Epoch Discrepancy: Metadata suggests creation date was altered post-capture.''],
        advice = Arr [Str ''Verify the transaction manually.'', Str ''Check for editing artifacts.''],
        layoutCheck = Str ''Suspicious'', anomalies = Arr []\<rparr>"
proof -
  let ?md = "Some \<lparr>software = None, isAlteredTimestamp = True, hasExif = False,
            isScreenshot = False, exif_make = None, exif_model = None,
            gpsLatitude = None, gpsLongitude = None\<rparr>"
  have t: "\<not> trim_is_empty ''You won a prize''"
    by (simp add: trim_is_empty_def js_whitespace_def)
  have h: "heuristicAudit idle_host ?md \<lparr>width = Fin 1080, height = Fin 2340\<rparr>
             (default_platform (Some ''Google Pay'')) =
           Inr (30, [''Epoch Discrepancy: Metadata suggests creation date was altered post-capture.''])"
    by (simp add: heuristicAudit_rules default_platform_def rule_eval editingToolRule_code
        geometryMismatch_code code_eval fl_eval)
  from gateway_failure_is_absorbed [of "''You won a prize''" idle_host "''IN''" _ image_mode ?md
      "\<lparr>width = Fin 1080, height = Fin 2340\<rparr>" "Some ''Google Pay''"
      "Some ''data:image/jpeg;base64,AAAA''" _ 30
      "[''Epoch Discrepancy: Metadata suggests creation date was altered post-capture.'']"]
    t h
  show ?thesis
    by (simp add: heuristicOnly_def first_occurrences_def)
qed

subsection \<open>Errors raised by the forensic scan\<close>

lemma gps_latitude_without_longitude:
  "gpsHalfPresent metadata \<Longrightarrow>
     analyzeForensics h mode metadata sz country platform_arg base64Image gw = Inl TypeError"
  by (simp add: analyzeForensics_raises heuristicAudit_rules)

lemma inherited_platform_name:
  "platform \<in> set Object_prototype_keys \<Longrightarrow>
     analyzeForensics h mode metadata sz country (Some platform) base64Image gw = Inl TypeError"
  by (simp add: analyzeForensics_raises heuristicAudit_rules default_platform_def)

text \<open>
  C7. The forensic scan raises a TypeError for metadata with \<open>gpsLatitude\<close> present and
  \<open>gpsLongitude\<close> absent: here \<open>{gpsLatitude: 12.5}\<close> with a 1080 x 2340 image, no platform
  and no image data. The general fact is \<open>gps_latitude_without_longitude\<close> above.
\<close>

theorem analyzeForensics_raises_TypeError:
  "analyzeForensics idle_host image_mode
     (Some \<lparr>software = None, isAlteredTimestamp = False, hasExif = False,
            isScreenshot = False, exif_make = None, exif_model = None,
            gpsLatitude = Some (Fin (25 / 2)), gpsLongitude = None\<rparr>)
     \<lparr>width = Fin 1080, height = Fin 2340\<rparr> ''IN'' None None Throws = Inl TypeError"
  by (simp add: analyzeForensics_def default_platform_def heuristicAudit_def metadataAudit_def
      gpsRule_def Let_def)

subsection \<open>Reasons\<close>

lemma reasons_analyzeForensics:
  assumes "heuristicAudit h metadata sz (default_platform platform_arg) = Inr (hs, rs)"
    and "analyzeForensics h mode metadata sz country platform_arg base64Image gw = Inr r"
  shows "reasons r = Arr (new_Set (map Str rs @ pushedReasons h base64Image gw))"
proof (cases "deepVisionAvailable h base64Image gw")
  case False
  then show ?thesis
    using assms(2) analyzeForensics_fallback [OF assms(1) False, of mode country]
    by (auto simp: fallbackResult_fields)
next
  case True
  then obtain v n xs ds where "gw = Responds v" "aiScoreNumber h base64Image gw = Some n"
    "entries v ''aiReasons'' = Some xs" "entries v ''detectedAnomalies'' = Some ds"
    by (auto simp: deepVisionAvailable_iff)
  then show ?thesis
    using assms(2) analyzeForensics_vision [OF assms(1), of base64Image v n xs ds mode country]
    by (auto simp: visionResult_fields pushedReasons_eq)
qed

text \<open>
  C8, as stated, fails on the text path: the reasons of the reply are returned as they
  came, duplicates included.
\<close>

theorem text_reasons_keep_duplicates:
  "reasons (analyzeText idle_host ''You won a prize'' ''IN''
     (Responds (Obj [(''score'', Num (Fin 80)), (''explanation'', Str ''Likely a scam.''),
        (''reasons'', Arr [Str ''Urgency'', Str ''Urgency'']), (''advice'', Arr [])]))) =
     Arr [Str ''Urgency'', Str ''Urgency''] \<and>
   \<not> distinct [''Urgency'', ''Urgency'']"
  by (simp add: analyzeText_def analyzeText_try_def get_def riskTernary_def js_gt_def
      Math_min_def or_else_def field_def jsmin_def trim_is_empty_def js_whitespace_def Let_def)

text \<open>
  C8, amended. The reasons returned by the forensic scan are the heuristic reasons followed
  by the reasons merged from the deep-vision reply (none without a reply), passed through
  a Set: each string is kept at its first occurrence only, so the list has no duplicate
  strings and holds exactly the strings of both lists; when the reply's reasons are
  strings, as the response schema asks, the list is exactly the first occurrences. The
  text scan (of a message that is not blank) and the link scan return the reasons of the
  gateway's reply unchanged when the reply is processed, and no reasons when it is not.
\<close>

theorem forensic_reasons_deduplicated:
  "(analyzeForensics h mode metadata sz country platform_arg base64Image gw = Inr r \<and>
    heuristicAudit h metadata sz (default_platform platform_arg) = Inr (hs, rs) \<longrightarrow>
      reasons r = Arr (new_Set (map Str rs @ pushedReasons h base64Image gw)) \<and>
      strings_of (new_Set (map Str rs @ pushedReasons h base64Image gw)) =
        first_occurrences (rs @ strings_of (pushedReasons h base64Image gw)) \<and>
      distinct (first_occurrences (rs @ strings_of (pushedReasons h base64Image gw))) \<and>
      set (first_occurrences (rs @ strings_of (pushedReasons h base64Image gw))) =
        set rs \<union> set (strings_of (pushedReasons h base64Image gw)) \<and>
      (pushedReasons h base64Image gw = map Str ss \<longrightarrow>
         reasons r = Arr (map Str (first_occurrences (rs @ ss))))) \<and>
   (\<not> trim_is_empty text \<longrightarrow>
      reasons (analyzeText h text country (Responds v)) =
        (if replyNumber h (Responds v) ''score'' = None then Arr [] else field v ''reasons'')) \<and>
   reasons (analyzeLink h url country (Responds v)) =
     (if replyNumber h (Responds v) ''score'' = None then Arr [] else field v ''reasons'')"
proof -
  have typed: "new_Set (map Str rs @ map Str ss) = map Str (first_occurrences (rs @ ss))"
    using new_Set_strings [of "rs @ ss"] by simp
  have text_scan: "\<not> trim_is_empty text \<Longrightarrow>
      reasons (analyzeText h text country (Responds v)) =
        (if replyNumber h (Responds v) ''score'' = None then Arr [] else field v ''reasons'')"
    by (cases "replyNumber h (Responds v) ''score''")
      (simp_all add: analyzeText_failed analyzeText_replied)
  have link_scan: "reasons (analyzeLink h url country (Responds v)) =
        (if replyNumber h (Responds v) ''score'' = None then Arr [] else field v ''reasons'')"
    by (cases "replyNumber h (Responds v) ''score''")
      (simp_all add: analyzeLink_failed analyzeLink_replied)
  show ?thesis
    using text_scan link_scan typed
    by (auto simp: reasons_analyzeForensics strings_of_new_Set strings_of_append
        strings_of_map_Str distinct_first_occurrences set_first_occurrences)
qed

text \<open>
  A reply that repeats one of its reasons and repeats the heuristic reason.
\<close>

theorem forensic_reasons_deduplicated_witness:
  "analyzeForensics idle_host image_mode
     (Some \<lparr>software = None, isAlteredTimestamp = True, hasExif = False,
            isScreenshot = False, exif_make = None, exif_model = None,
            gpsLatitude = None, gpsLongitude = None\<rparr>)
     \<lparr>width = Fin 1080, height = Fin 2340\<rparr> ''IN'' (Some ''Google Pay'')
     (Some ''data:image/jpeg;base64,AAAA'')
     (Responds (Obj [(''aiScore'', Num (Fin 20)),
        (''aiReasons'', Arr [Str ''Font mismatch'',
           Str ''Epoch Discrepancy: Metadata suggests creation date was altered post-capture.'',
           Str ''Font mismatch''])])) =
   Inr \<lparr>riskLevel = Low, score = Num (Fin 30),
        explanation = Str ''Forensic vision audit complete.'',
        reasons = Arr [Str ''Epoch Discrepancy: Metadata suggests creation date was altered post-capture.'',
                       Str ''Font mismatch''],
        advice = Arr [Str ''Cross-verify this Transaction ID in your banking app.'',
                      Str ''Check for blurred edges around the currency symbol.'',
                      Str ''Check if the fonts are consistent across the entire screen.''],
        layoutCheck = Str ''Suspicious'', anomalies = Arr []\<rparr> \<and>
   first_occurrences
     ([''Epoch Discrepancy: Metadata suggests creation date was altered post-capture.''] @
      [''Font mismatch'',
       ''Epoch Discrepancy: Metadata suggests creation date was altered post-capture.'',
       ''Font mismatch'']) =
   [''Epoch Discrepancy: Metadata suggests creation date was altered post-capture.'',
    ''Font mismatch'']"
proof -
  let ?md = "Some \<lparr>software = None, isAlteredTimestamp = True, hasExif = False,
            isScreenshot = False, exif_make = None, exif_model = None,
            gpsLatitude = None, gpsLongitude = None\<rparr>"
  let ?sz = "\<lparr>width = Fin 1080, height = Fin 2340\<rparr>"
  let ?img = "Some ''data:image/jpeg;base64,AAAA''"
  let ?e = "''Epoch Discrepancy: Metadata suggests creation date was altered post-capture.''"
  let ?v = "Obj [(''aiScore'', Num (Fin 20)),
        (''aiReasons'', Arr [Str ''Font mismatch'', Str ?e, Str ''Font mismatch''])]"
  let ?r = "\<lparr>riskLevel = Low, score = Num (Fin 30),
        explanation = Str ''Forensic vision audit complete.'',
        reasons = Arr [Str ?e, Str ''Font mismatch''],
        advice = Arr [Str ''Cross-verify this Transaction ID in your banking app.'',
                      Str ''Check for blurred edges around the currency symbol.'',
                      Str ''Check if the fonts are consistent across the entire screen.''],
        layoutCheck = Str ''Suspicious'', anomalies = Arr []\<rparr>"
  have h: "heuristicAudit idle_host ?md ?sz (default_platform (Some ''Google Pay'')) =
           Inr (30, [?e])"
    by (simp add: heuristicAudit_rules default_platform_def rule_eval editingToolRule_code
        geometryMismatch_code code_eval fl_eval)
  have a: "aiScoreNumber idle_host ?img (Responds ?v) = Some (Fin 20)"
    by (simp add: aiScoreNumber_def consultedReply_def field_def)
  have e: "entries ?v ''aiReasons'' = Some [Str ''Font mismatch'', Str ?e, Str ''Font mismatch'']"
    "entries ?v ''detectedAnomalies'' = Some []"
    by (simp_all add: entries_def field_def)
  have run: "analyzeForensics idle_host image_mode ?md ?sz ''IN'' (Some ''Google Pay'') ?img
               (Responds ?v) = Inr ?r"
    by (simp add: analyzeForensics_vision [OF h a e] visionResult_def jsmax_Fin jsmin_Fin
        new_Set_def Set_add_def or_else_def field_def)
  have p: "pushedReasons idle_host ?img (Responds ?v) =
             map Str [''Font mismatch'', ?e, ''Font mismatch'']"
    by (simp add: pushedReasons_eq a e)
  from forensic_reasons_deduplicated [where h = idle_host and mode = image_mode
      and metadata = ?md and sz = ?sz and country = "''IN''"
      and platform_arg = "Some ''Google Pay''" and base64Image = ?img and gw = "Responds ?v"
      and r = ?r and hs = 30 and rs = "[?e]" and ss = "[''Font mismatch'', ?e, ''Font mismatch'']"]
    run h p
  have "Arr [Str ?e, Str ''Font mismatch''] =
          Arr (map Str (first_occurrences ([?e] @ [''Font mismatch'', ?e, ''Font mismatch''])))"
    by simp
  then have "map Str (first_occurrences ([?e] @ [''Font mismatch'', ?e, ''Font mismatch''])) =
               map Str [?e, ''Font mismatch'']"
    by simp
  then have "first_occurrences ([?e] @ [''Font mismatch'', ?e, ''Font mismatch'']) =
               [?e, ''Font mismatch'']"
    by (simp add: map_eq_Cons_conv)
  with run show ?thesis
    by simp
qed

subsection \<open>Advice of the link scan\<close>

text \<open>
  C9, as stated, fails when the gateway fails: the degraded result of the link scan has
  no advice at all.
\<close>

theorem link_failure_has_no_advice:
  "advice (analyzeLink idle_host ''http://example.com'' ''IN'' Throws) = Arr [] \<and>
   Str ''Check for subtle misspellings in the URL.'' \<notin> set []"
  by (simp add: analyzeLink_def analyzeLink_try_def)

lemma replyNumber_Num: "field v k = Num m \<Longrightarrow> replyNumber h (Responds v) k \<noteq> None"
  using field_defined [of v k]
  by (simp add: replyNumber_def)

text \<open>
  C9, amended. When the reply of the gateway is processed, the advice of the link scan is
  the single fixed tip about misspellings, whatever the reply holds; that is so for every
  reply whose \<open>score\<close> is a number or is missing. When the gateway fails (or the reply
  cannot be processed: it is \<open>null\<close>, or its \<open>score\<close> cannot be converted to a number), the
  advice is empty.
\<close>

theorem link_advice:
  "advice (analyzeLink h url country gw) =
     (if replyNumber h gw ''score'' = None then Arr []
      else Arr [Str ''Check for subtle misspellings in the URL.'']) \<and>
   (field v ''score'' = Num m \<or> field v ''score'' = Undefined \<and> v \<noteq> Null \<and> v \<noteq> Undefined \<longrightarrow>
      advice (analyzeLink h url country (Responds v)) =
        Arr [Str ''Check for subtle misspellings in the URL.'']) \<and>
   advice (analyzeLink h url country Throws) = Arr []"
proof -
  have general: "advice (analyzeLink h url country gw) =
     (if replyNumber h gw ''score'' = None then Arr []
      else Arr [Str ''Check for subtle misspellings in the URL.''])" for gw
  proof (cases "replyNumber h gw ''score''")
    case None
    then show ?thesis by (simp add: analyzeLink_failed)
  next
    case (Some n)
    then obtain w where "gw = Responds w"
      by (cases gw) (simp_all add: replyNumber_Throws)
    with Some show ?thesis by (simp add: analyzeLink_replied)
  qed
  show ?thesis
    using replyNumber_Num [of v "''score''" m h] replyNumber_missing [of v "''score''" h]
    by (auto simp: general replyNumber_Throws)
qed

text \<open>A reply with score 80, the reply \<open>{}\<close> and a failing gateway.\<close>

theorem link_advice_witness:
  "advice (analyzeLink idle_host ''http://example.com'' ''IN''
     (Responds (Obj [(''score'', Num (Fin 80)), (''advice'', Arr [Str ''Do not click.''])]))) =
     Arr [Str ''Check for subtle misspellings in the URL.''] \<and>
   advice (analyzeLink idle_host ''http://example.com'' ''IN'' (Responds (Obj []))) =
     Arr [Str ''Check for subtle misspellings in the URL.''] \<and>
   advice (analyzeLink idle_host ''http://example.com'' ''IN'' Throws) = Arr []"
  using link_advice [of idle_host "''http://example.com''" "''IN''" Throws
      "Obj [(''score'', Num (Fin 80)), (''advice'', Arr [Str ''Do not click.''])]" "Fin 80"]
    link_advice [of idle_host "''http://example.com''" "''IN''" Throws "Obj []" "Fin 0"]
  by (simp add: field_def)

subsection \<open>Merging and the heuristic score\<close>

text \<open>
  When the \<open>aiScore\<close> of the reply stands for a number, or nothing is merged, the returned
  score is at least the smaller of the heuristic score and 100. When it stands for \<open>NaN\<close>,
  the returned score is \<open>NaN\<close> and the risk level is Low.
\<close>

lemma merge_never_lowers_numeric_score:
  assumes "heuristicAudit h metadata sz (default_platform platform_arg) = Inr (hs, rs)"
    and "analyzeForensics h mode metadata sz country platform_arg base64Image gw = Inr r"
    and "aiScoreNumber h base64Image gw \<noteq> Some NaN"
  shows "\<exists>n. score r = Num n \<and> at_least n (of_int (min hs 100))"
proof -
  have nn: "0 \<le> (of_int hs :: rat)"
    using heuristicAudit_nonneg [OF assms(1)] by simp
  show ?thesis
  proof (cases "aiScoreNumber h base64Image gw")
    case None
    then show ?thesis
      using analyzeForensics_score [OF assms(1,2)]
      by (auto simp: jsmin_def at_least_def min_def)
  next
    case (Some n)
    with assms(3) have "n \<noteq> NaN" by simp
    from merged_score_range [OF nn this] show ?thesis
      using analyzeForensics_score [OF assms(1,2)] Some
      by (simp add: min_def split: if_splits)
  qed
qed

lemma missing_aiScore_counts_as_zero:
  assumes "heuristicAudit h metadata sz (default_platform platform_arg) = Inr (hs, rs)"
    and "analyzeForensics h mode metadata sz country platform_arg base64Image (Responds v) = Inr r"
    and "field v ''aiScore'' = Undefined"
  shows "score r = Num (Fin (of_int (min hs 100)))"
proof -
  have nn: "0 \<le> (of_int hs :: rat)"
    using heuristicAudit_nonneg [OF assms(1)] by simp
  have "aiScoreNumber h base64Image (Responds v) = None \<or>
        aiScoreNumber h base64Image (Responds v) = Some (Fin 0)"
  proof (cases "consultedReply base64Image (Responds v)")
    case None
    then show ?thesis by (simp add: aiScoreNumber_def)
  next
    case (Some w)
    then have "w = v" by (simp add: consultedReply_Some)
    with Some show ?thesis by (simp add: aiScoreNumber_def assms(3))
  qed
  then show ?thesis
    using analyzeForensics_score [OF assms(1,2)] nn
    by (auto simp: jsmax_Fin jsmin_Fin min_def max_def)
qed

lemma NaN_aiScore:
  assumes "analyzeForensics h mode metadata sz country platform_arg base64Image gw = Inr r"
    and "aiScoreNumber h base64Image gw = Some NaN"
  shows "score r = Num NaN \<and> riskLevel r = Low"
proof (cases "heuristicAudit h metadata sz (default_platform platform_arg)")
  case (Inl e)
  then show ?thesis
    using assms(1) by (simp add: analyzeForensics_raises)
next
  case (Inr st)
  then have st: "heuristicAudit h metadata sz (default_platform platform_arg) = Inr (fst st, snd st)"
    by simp
  have "score r = Num NaN"
    using analyzeForensics_score [OF st assms(1)] assms(2) by (simp add: jsmax_def jsmin_def)
  moreover have "riskLevel r = Low"
    using riskLevel_analyzeForensics [OF assms(1)] \<open>score r = Num NaN\<close>
    by (simp add: numeric_def classify_def split: if_splits)
  ultimately show ?thesis by simp
qed

text \<open>
  C10. A reply can lower the score. With a heuristic score of 60 (Photoshop and a size that
  is no PhonePe size), an image and the reply
  \<open>{"aiScore": {}, "aiReasons": [], "detectedAnomalies": []}\<close>, \<open>Math.max(60, {})\<close> is \<open>NaN\<close>:
  the scan returns the score \<open>NaN\<close> and the risk level Low, while the same audit without a
  reply returns 60 and Medium.
\<close>

theorem non_numeric_aiScore_lowers_score:
  "analyzeForensics idle_host image_mode
     (Some \<lparr>software = Some ''Photoshop'', isAlteredTimestamp = False, hasExif = False,
            isScreenshot = False, exif_make = None, exif_model = None,
            gpsLatitude = None, gpsLongitude = None\<rparr>)
     \<lparr>width = Fin 1080, height = Fin 1920\<rparr> ''IN'' (Some ''PhonePe'')
     (Some ''data:image/jpeg;base64,AAAA'')
     (Responds (Obj [(''aiScore'', Obj []), (''aiReasons'', Arr []),
        (''detectedAnomalies'', Arr [])])) =
   Inr \<lparr>riskLevel = Low, score = Num NaN,
        explanation = Str ''Forensic vision audit complete.'',
        reasons = Arr [Str ''Modification Signature: File processed via Photoshop.'',
                       Str ''Geometric Mismatch: Screenshot dimensions do not match the PhonePe standard.''],
        advice = Arr [Str ''Cross-verify this Transaction ID in your banking app.'',
                      Str ''Check for blurred edges around the currency symbol.'',
                      Str ''Check if the fonts are consistent across the entire screen.''],
        layoutCheck = Str ''Suspicious'', anomalies = Arr []\<rparr> \<and>
   \<not> at_least NaN (min 60 100) \<and>
   analyzeForensics idle_host image_mode
     (Some \<lparr>software = Some ''Photoshop'', isAlteredTimestamp = False, hasExif = False,
            isScreenshot = False, exif_make = None, exif_model = None,
            gpsLatitude = None, gpsLongitude = None\<rparr>)
     \<lparr>width = Fin 1080, height = Fin 1920\<rparr> ''IN'' (Some ''PhonePe'') None Throws =
   Inr \<lparr>riskLevel = Medium, score = Num (Fin 60),
        explanation = Str ''Basic heuristic forensic audit complete.'',
        reasons = Arr [Str ''Modification Signature: File processed via Photoshop.'',
                       Str ''Geometric Mismatch: Screenshot dimensions do not match the PhonePe standard.''],
        advice = Arr [Str ''Verify the transaction manually.'', Str ''Check for editing artifacts.''],
        layoutCheck = Str ''Suspicious'', anomalies = Arr []\<rparr>"
proof -
  let ?md = "Some \<lparr>software = Some ''Photoshop'', isAlteredTimestamp = False, hasExif = False,
            isScreenshot = False, exif_make = None, exif_model = None,
            gpsLatitude = None, gpsLongitude = None\<rparr>"
  let ?sz = "\<lparr>width = Fin 1080, height = Fin 1920\<rparr>"
  have h: "heuristicAudit idle_host ?md ?sz ''PhonePe'' =
           Inr (60, [''Modification Signature: File processed via Photoshop.'',
                     ''Geometric Mismatch: Screenshot dimensions do not match the PhonePe standard.''])"
    by (simp add: heuristicAudit_rules rule_eval editingToolRule_code geometryMismatch_code
        code_eval fl_eval)
  show ?thesis
    by (simp add: analyzeForensics_def default_platform_def h truthy_string_def initial_locals_def
        visionTry_def mergeScore_def get_def Math_max_def or_else_def field_def jsmax_def
        jsmin_def visionResult_def fallbackResult_def new_Set_def Set_add_def at_least_def Let_def)
qed

end
